theory Spec2Isabelle
  imports Complex_Main
begin

section \<open>Identifiers, errors and the HTTP error layer\<close>

text \<open>
  Identifiers reach the services as strings (route parameters and JSON bodies).  Mongoose
  casts such a string to an ObjectId wherever a query or a document path expects one; with
  the driver the package pins (mongoose 8) a string is accepted when it consists of 24
  hexadecimal digits, upper or lower case, and the ObjectId prints itself
  (\<^verbatim>\<open>toString()\<close>) as 24 lower-case digits.  An \<open>objectId\<close> below holds that printed form.
\<close>

datatype objectId = ObjectId string

definition isHexDigit :: "char \<Rightarrow> bool" where
  "isHexDigit c = (c \<in> set ''0123456789abcdefABCDEF'')"

definition lowerHexDigit :: "char \<Rightarrow> char" where
  "lowerHexDigit c =
     (if c = CHR ''A'' then CHR ''a'' else if c = CHR ''B'' then CHR ''b''
      else if c = CHR ''C'' then CHR ''c'' else if c = CHR ''D'' then CHR ''d''
      else if c = CHR ''E'' then CHR ''e'' else if c = CHR ''F'' then CHR ''f'' else c)"

definition castObjectId :: "string \<Rightarrow> objectId option" where
  "castObjectId s =
     (if length s = 24 \<and> list_all isHexDigit s then Some (ObjectId (map lowerHexDigit s))
      else None)"

fun toString :: "objectId \<Rightarrow> string" where
  "toString (ObjectId h) = h"

text \<open>
  A thrown JavaScript error, with the properties the error middleware reads: \<open>name\<close>,
  \<open>message\<close>, \<open>statusCode\<close>, \<open>code\<close>, the keys of \<open>keyValue\<close> and the messages of
  \<open>errors\<close> (the last four are \<open>None\<close> when the property is undefined).
\<close>

record jsError =
  e_name :: string
  e_message :: string
  e_statusCode :: "nat option"
  e_code :: "nat option"
  e_keyValue :: "string list option"
  e_errors :: "string list option"

text \<open>\<^verbatim>\<open>new Error(msg)\<close>: only name and message.\<close>

definition newError :: "string \<Rightarrow> jsError" where
  "newError msg = \<lparr>e_name = ''Error'', e_message = msg, e_statusCode = None,
     e_code = None, e_keyValue = None, e_errors = None\<rparr>"

definition typeError :: "string \<Rightarrow> jsError" where
  "typeError msg = (newError msg)\<lparr>e_name := ''TypeError''\<rparr>"

text \<open>
  The CastError Mongoose raises when a string cannot be cast to an ObjectId.  Its message
  goes on to name the type, the path and the model; nothing reads that part, since the error
  middleware replaces the message of a CastError, and it is left out.
\<close>

definition castError :: "string \<Rightarrow> jsError" where
  "castError v = (newError (''Cast to ObjectId failed for value '' @ v))\<lparr>e_name := ''CastError''\<rparr>"

text \<open>\<^verbatim>\<open>config/constants.js\<close>, HTTP_STATUS.\<close>

definition OK :: nat where "OK = 200"
definition CREATED :: nat where "CREATED = 201"
definition BAD_REQUEST :: nat where "BAD_REQUEST = 400"
definition UNAUTHORIZED :: nat where "UNAUTHORIZED = 401"
definition FORBIDDEN :: nat where "FORBIDDEN = 403"
definition NOT_FOUND :: nat where "NOT_FOUND = 404"
definition CONFLICT :: nat where "CONFLICT = 409"
definition INTERNAL_SERVER_ERROR :: nat where "INTERNAL_SERVER_ERROR = 500"

text \<open>
  The response envelope of \<^verbatim>\<open>formatResponse\<close> together with the status set on the
  response; the timestamp and the data payload are left out.
\<close>

record httpResponse =
  r_status :: nat
  r_success :: bool
  r_message :: string

fun joinWith :: "string \<Rightarrow> string list \<Rightarrow> string" where
  "joinWith sep [] = []"
| "joinWith sep [x] = x"
| "joinWith sep (x # y # ys) = x @ sep @ joinWith sep (y # ys)"

text \<open>
  \<^verbatim>\<open>errorHandler\<close> of \<^verbatim>\<open>middlewares/error.middleware.js\<close>.  The working copy
  \<open>error\<close> is the pair (statusCode, message); the five tests run one after the other and
  a later one overwrites an earlier one.  The result is \<open>Inl\<close> when the handler itself
  throws (reading the keys of an undefined \<open>keyValue\<close> or \<open>errors\<close>).
\<close>

definition errorHandler :: "jsError \<Rightarrow> jsError + httpResponse" where
  "errorHandler err =
     (let error0 = (e_statusCode err, e_message err);
          error1 = (if e_name err = ''CastError'' then (Some NOT_FOUND, ''Resource not found'')
                    else error0)
      in if e_code err = Some 11000 \<and> e_keyValue err = None
         then Inl (typeError ''Cannot convert undefined or null to object'')
         else
           let error2 = (if e_code err = Some 11000
                         then (Some CONFLICT,
                               (case the (e_keyValue err) of [] \<Rightarrow> ''undefined'' | k # _ \<Rightarrow> k)
                                 @ '' already exists'')
                         else error1)
           in if e_name err = ''ValidationError'' \<and> e_errors err = None
              then Inl (typeError ''Cannot convert undefined or null to object'')
              else
                let error3 = (if e_name err = ''ValidationError''
                              then (Some BAD_REQUEST, joinWith '', '' (the (e_errors err)))
                              else error2);
                    error4 = (if e_name err = ''JsonWebTokenError''
                              then (Some UNAUTHORIZED, ''Invalid token'') else error3);
                    error5 = (if e_name err = ''TokenExpiredError''
                              then (Some UNAUTHORIZED, ''Token expired'') else error4)
                in Inr \<lparr>r_status = (case fst error5 of None \<Rightarrow> INTERNAL_SERVER_ERROR
                                        | Some c \<Rightarrow> if c = 0 then INTERNAL_SERVER_ERROR else c),
                         r_success = False,
                         r_message = (if snd error5 = [] then ''Server Error'' else snd error5)\<rparr>)"

text \<open>A controller's success branch: \<^verbatim>\<open>res.status(code).json(formatResponse(true, msg, ...))\<close>.\<close>

definition jsonOk :: "nat \<Rightarrow> string \<Rightarrow> jsError + httpResponse" where
  "jsonOk c msg = Inr \<lparr>r_status = c, r_success = True, r_message = msg\<rparr>"

section \<open>Dates\<close>

text \<open>
  A JavaScript Date seen through its local-time getters: full year, month (0 to 11), day of
  the month (1 to 31) and the milliseconds within the day.
\<close>

record jsDate =
  d_year :: int
  d_month :: nat
  d_date :: nat
  d_msInDay :: nat

definition isLeapYear :: "int \<Rightarrow> bool" where
  "isLeapYear y = (y mod 400 = 0 \<or> (y mod 4 = 0 \<and> y mod 100 \<noteq> 0))"

definition daysInMonth :: "int \<Rightarrow> nat \<Rightarrow> nat" where
  "daysInMonth y m =
     (if m = 1 then (if isLeapYear y then 29 else 28)
      else if m = 3 \<or> m = 5 \<or> m = 8 \<or> m = 10 then 30 else 31)"

text \<open>
  ECMAScript's MakeDay for a day of the month that may exceed the month's length: the day
  number of the first of the month plus \<open>dt - 1\<close> days, read back as a calendar date.
  Days beyond the end of the month run on into the following months.
\<close>

function makeDay :: "int \<Rightarrow> nat \<Rightarrow> nat \<Rightarrow> int \<times> nat \<times> nat" where
  "makeDay y m dt =
     (if dt \<le> daysInMonth y m then (y, m, dt)
      else if m = 11 then makeDay (y + 1) 0 (dt - daysInMonth y m)
      else makeDay y (m + 1) (dt - daysInMonth y m))"
  by pat_completeness auto
termination
  by (relation "measure (\<lambda>(y, m, dt). dt)") (auto simp: daysInMonth_def)

declare makeDay.simps [simp del]

text \<open>
  \<^verbatim>\<open>Date.prototype.setMonth(month)\<close>: year and month are taken from \<open>month\<close> by floor
  division by 12, the day of the month and the time within the day are kept, and MakeDay
  resolves the result.
\<close>

definition setMonth :: "jsDate \<Rightarrow> int \<Rightarrow> jsDate" where
  "setMonth d mo =
     (let (y, m, dt) = makeDay (d_year d + mo div 12) (nat (mo mod 12)) (d_date d)
      in \<lparr>d_year = y, d_month = m, d_date = dt, d_msInDay = d_msInDay d\<rparr>)"

definition getMonth :: "jsDate \<Rightarrow> int" where
  "getMonth d = int (d_month d)"

section \<open>Documents and the store\<close>

record member =
  m_id :: objectId
  m_user :: objectId
  m_memberId :: string
  m_name :: string
  m_phone :: string
  m_zone :: objectId
  m_membershipType :: string
  m_status :: string
  m_joinDate :: jsDate
  m_renewalDate :: jsDate
  m_qrCode :: "string option"
  m_isActive :: bool

record zone =
  z_id :: objectId
  z_name :: string
  z_description :: string
  z_isActive :: bool

record attendee =
  a_member :: objectId
  a_registrationDate :: jsDate
  a_attendanceStatus :: string
  a_paymentStatus :: string

record event =
  ev_id :: objectId
  ev_title :: string
  ev_description :: string
  ev_eventDate :: jsDate
  ev_location :: string
  ev_maxAttendees :: "nat option"
  ev_registrationFee :: rat
  ev_status :: string
  ev_attendees :: "attendee list"
  ev_createdBy :: objectId
  ev_isActive :: bool

record payment =
  p_id :: objectId
  p_paymentId :: string
  p_member :: objectId
  p_amount :: rat
  p_paymentType :: string
  p_paymentMethod :: string
  p_status :: string
  p_transactionId :: "string option"
  p_description :: "string option"
  p_receiptFile :: "string option"
  p_event :: "objectId option"
  p_paymentDate :: jsDate
  p_processedBy :: "objectId option"
  p_isActive :: bool

record user =
  u_id :: objectId
  u_name :: string
  u_email :: string
  u_password :: string
  u_role :: string
  u_isActive :: bool

record notification =
  n_id :: objectId
  n_title :: string
  n_message :: string
  n_type :: string
  n_priority :: string
  n_targetMembers :: "objectId list"
  n_sentBy :: objectId
  n_sentAt :: jsDate
  n_status :: string
  n_isRead :: bool
  n_isActive :: bool

text \<open>
  The six collections.  The documents carry the paths of their schemas that the modelled
  operations read or write; the timestamps, the address, the date of birth and the profile
  image of a member are left out.  \<^verbatim>\<open>populate\<close> only decorates the document a call
  returns and is left out as well.
\<close>

record store =
  users :: "user list"
  members :: "member list"
  zones :: "zone list"
  events :: "event list"
  payments :: "payment list"
  notifications :: "notification list"

text \<open>
  \<^verbatim>\<open>Model.findById(id)\<close>: the string is cast (a CastError when that fails) and the
  first document with that \<open>_id\<close> is returned, \<open>None\<close> for JavaScript's null.
\<close>

definition findById :: "('d \<Rightarrow> objectId) \<Rightarrow> 'd list \<Rightarrow> string \<Rightarrow> jsError + 'd option" where
  "findById idOf docs s =
     (case castObjectId s of
        None \<Rightarrow> Inl (castError s)
      | Some i \<Rightarrow> Inr (find (\<lambda>d. idOf d = i) docs))"

text \<open>
  \<^verbatim>\<open>doc.save()\<close> of a loaded document: the stored copy with the same \<open>_id\<close> is
  replaced.  Stored documents are taken to satisfy their schema, as every write of the
  application leaves them; the validation \<^verbatim>\<open>save()\<close> runs is spelt out, operation by
  operation, for the paths the operation sets.
\<close>

definition saveDoc :: "('d \<Rightarrow> objectId) \<Rightarrow> 'd \<Rightarrow> 'd list \<Rightarrow> 'd list" where
  "saveDoc idOf d docs = map (\<lambda>x. if idOf x = idOf d then d else x) docs"

section \<open>EventService.getEventAttendees\<close>

record attendeeSummary =
  totalRegistered :: nat
  attended :: nat
  noShow :: nat
  pending :: nat

record attendeesResult =
  ar_eventTitle :: string
  ar_eventDate :: jsDate
  ar_attendees :: "attendee list"
  ar_summary :: attendeeSummary

definition getEventAttendees :: "store \<Rightarrow> string \<Rightarrow> jsError + attendeesResult" where
  "getEventAttendees s eventId =
     (case findById ev_id (events s) eventId of
        Inl e \<Rightarrow> Inl e
      | Inr None \<Rightarrow> Inl (newError ''Event not found'')
      | Inr (Some event) \<Rightarrow>
          if \<not> ev_isActive event then Inl (newError ''Event not found'')
          else Inr \<lparr>ar_eventTitle = ev_title event,
                    ar_eventDate = ev_eventDate event,
                    ar_attendees = ev_attendees event,
                    ar_summary = \<lparr>
                      totalRegistered = length (ev_attendees event),
                      attended = length (filter (\<lambda>a. a_attendanceStatus a = ''Attended'')
                                           (ev_attendees event)),
                      noShow = length (filter (\<lambda>a. a_attendanceStatus a = ''No Show'')
                                         (ev_attendees event)),
                      pending = length (filter (\<lambda>a. a_attendanceStatus a = ''Registered'')
                                          (ev_attendees event))\<rparr>\<rparr>)"

text \<open>The enum of \<^verbatim>\<open>attendees.attendanceStatus\<close> in the Event schema.\<close>

definition attendanceStatusEnum :: "string list" where
  "attendanceStatusEnum = [''Registered'', ''Attended'', ''No Show'']"

section \<open>ZoneService.deleteZone\<close>

function string_of_nat :: "nat \<Rightarrow> string" where
  "string_of_nat n =
     (if n < 10 then [char_of (48 + n)]
      else string_of_nat (n div 10) @ [char_of (48 + n mod 10)])"
  by pat_completeness auto
termination
  by (relation "measure id") auto

declare string_of_nat.simps [simp del]

text \<open>\<^verbatim>\<open>Zone.findOne({ _id: zoneId, isActive: true })\<close>.\<close>

definition findActiveZone :: "zone list \<Rightarrow> string \<Rightarrow> jsError + zone option" where
  "findActiveZone zs zoneId =
     (case castObjectId zoneId of
        None \<Rightarrow> Inl (castError zoneId)
      | Some i \<Rightarrow> Inr (find (\<lambda>z. z_id z = i \<and> z_isActive z) zs))"

text \<open>\<^verbatim>\<open>Member.countDocuments({ zone: zoneId, isActive: true })\<close>.\<close>

definition countActiveMembersOfZone :: "member list \<Rightarrow> string \<Rightarrow> jsError + nat" where
  "countActiveMembersOfZone ms zoneId =
     (case castObjectId zoneId of
        None \<Rightarrow> Inl (castError zoneId)
      | Some i \<Rightarrow> Inr (length (filter (\<lambda>m. m_zone m = i \<and> m_isActive m) ms)))"

definition zoneInUseMessage :: "nat \<Rightarrow> string" where
  "zoneInUseMessage n = ''Cannot delete zone. It has '' @ string_of_nat n
     @ '' active member(s). Please reassign or remove members first.''"

text \<open>
  \<^verbatim>\<open>deleteZone\<close> returns the thrown error or the saved zone, and the store as the call
  leaves it.
\<close>

definition deleteZone :: "store \<Rightarrow> string \<Rightarrow> (jsError + zone) \<times> store" where
  "deleteZone s zoneId =
     (case findActiveZone (zones s) zoneId of
        Inl e \<Rightarrow> (Inl e, s)
      | Inr None \<Rightarrow> (Inl (newError ''Zone not found''), s)
      | Inr (Some z) \<Rightarrow>
          (case countActiveMembersOfZone (members s) zoneId of
             Inl e \<Rightarrow> (Inl e, s)
           | Inr activeMemberCount \<Rightarrow>
               if activeMemberCount > 0
               then (Inl (newError (zoneInUseMessage activeMemberCount)), s)
               else let z' = z\<lparr>z_isActive := False\<rparr>
                    in (Inr z', s\<lparr>zones := saveDoc z_id z' (zones s)\<rparr>)))"

text \<open>
  \<^verbatim>\<open>ZoneController.deleteZone\<close>: the success envelope, or the thrown error handed to
  the error middleware.
\<close>

definition ZoneController_deleteZone :: "store \<Rightarrow> string \<Rightarrow> (jsError + httpResponse) \<times> store" where
  "ZoneController_deleteZone s zoneId =
     (case deleteZone s zoneId of
        (Inr z, s') \<Rightarrow> (jsonOk OK ''Zone deleted successfully'', s')
      | (Inl e, s') \<Rightarrow> (errorHandler e, s'))"

section \<open>Strings and Mongoose validation\<close>

definition toLowerCase :: "string \<Rightarrow> string" where
  "toLowerCase s = map (\<lambda>c. if (65::nat) \<le> of_char c \<and> of_char c \<le> (90::nat)
                               then char_of (of_char c + (32::nat)) else c) s"

definition toUpperCase :: "string \<Rightarrow> string" where
  "toUpperCase s = map (\<lambda>c. if (97::nat) \<le> of_char c \<and> of_char c \<le> (122::nat)
                               then char_of (of_char c - (32::nat)) else c) s"

definition isSpace :: "char \<Rightarrow> bool" where
  "isSpace c = (c = CHR '' '' \<or> (9::nat) \<le> of_char c \<and> of_char c \<le> (13::nat))"

definition trim :: "string \<Rightarrow> string" where
  "trim s = rev (dropWhile isSpace (rev (dropWhile isSpace s)))"

definition string_of_int :: "int \<Rightarrow> string" where
  "string_of_int i = (if i < 0 then CHR ''-'' # string_of_nat (nat (- i)) else string_of_nat (nat i))"

text \<open>
  The ValidationError with which \<^verbatim>\<open>save()\<close> rejects: one (path, message) pair per
  failed path.
\<close>

definition validationError :: "string \<Rightarrow> (string \<times> string) list \<Rightarrow> jsError" where
  "validationError model errs =
     \<lparr>e_name = ''ValidationError'',
      e_message = model @ '' validation failed: ''
                    @ joinWith '', '' (map (\<lambda>(p, m). p @ '': '' @ m) errs),
      e_statusCode = None, e_code = None, e_keyValue = None,
      e_errors = Some (map snd errs)\<rparr>"

definition enumMessage :: "string \<Rightarrow> string \<Rightarrow> string" where
  "enumMessage v path = [CHR 0x60] @ v @ [CHR 0x60] @ '' is not a valid enum value for path ''
     @ [CHR 0x60] @ path @ [CHR 0x60] @ ''.''"

text \<open>The enums of the Payment schema and its validators, path by path.\<close>

definition paymentTypeEnum :: "string list" where
  "paymentTypeEnum = [''Membership Fee'', ''Event Registration'', ''Late Fee'', ''Other'']"

definition paymentMethodEnum :: "string list" where
  "paymentMethodEnum =
     [''Cash'', ''Credit Card'', ''Debit Card'', ''Bank Transfer'', ''Online'', ''Cheque'']"

definition paymentStatusEnum :: "string list" where
  "paymentStatusEnum = [''Pending'', ''Completed'', ''Failed'', ''Refunded'']"

definition checkAmount :: "rat \<Rightarrow> (string \<times> string) list" where
  "checkAmount a = (if a < 0 then [(''amount'', ''Amount cannot be negative'')] else [])"

definition checkEnum :: "string \<Rightarrow> string list \<Rightarrow> string \<Rightarrow> (string \<times> string) list" where
  "checkEnum path enum v = (if v \<in> set enum then [] else [(path, enumMessage v path)])"

definition checkRequiredEnum ::
  "string \<Rightarrow> string \<Rightarrow> string list \<Rightarrow> string \<Rightarrow> (string \<times> string) list" where
  "checkRequiredEnum path requiredMsg enum v =
     (if v = [] then [(path, requiredMsg)] else checkEnum path enum v)"

section \<open>MemberService\<close>

text \<open>The methods the class MemberService defines (\<^verbatim>\<open>services/member.service.js\<close>).\<close>

definition MemberService_methods :: "string list" where
  "MemberService_methods =
     [''createMember'', ''getAllMembers'', ''getMemberById'', ''updateMember'',
      ''disableMember'', ''getMemberQRCode'', ''searchMembers'', ''renewMembership'']"

definition getMemberById :: "store \<Rightarrow> string \<Rightarrow> jsError + member" where
  "getMemberById s memberId =
     (case findById m_id (members s) memberId of
        Inl e \<Rightarrow> Inl e
      | Inr None \<Rightarrow> Inl (newError ''Member not found'')
      | Inr (Some member) \<Rightarrow>
          if \<not> m_isActive member then Inl (newError ''Member not found'') else Inr member)"

definition disableMember :: "store \<Rightarrow> string \<Rightarrow> (jsError + member) \<times> store" where
  "disableMember s memberId =
     (case findById m_id (members s) memberId of
        Inl e \<Rightarrow> (Inl e, s)
      | Inr None \<Rightarrow> (Inl (newError ''Member not found''), s)
      | Inr (Some member) \<Rightarrow>
          let member' = member\<lparr>m_isActive := False, m_status := ''Inactive''\<rparr>
          in (Inr member', s\<lparr>members := saveDoc m_id member' (members s)\<rparr>))"

text \<open>
  The request body of a renewal, with the fields \<^verbatim>\<open>renewMembershipSchema\<close> requires.
\<close>

record renewalData =
  renewalPeriod :: int
  paymentAmount :: rat
  paymentMethod :: string
  transactionId :: "string option"

record renewalResult =
  rr_member :: member
  rr_payment :: payment
  previousRenewalDate :: jsDate
  newRenewalDate :: jsDate

text \<open>
  The loop \<^verbatim>\<open>while (!isUnique) { paymentId = generatePaymentId(); ... }\<close>.  The
  identifiers that successive calls of \<^verbatim>\<open>generatePaymentId\<close> return are given as a
  list; the loop takes the first one no payment carries.  \<open>None\<close>: every identifier of the
  list was taken and the loop is still running.  \<^verbatim>\<open>generateId\<close> returns upper-case
  text, so the \<open>uppercase\<close> setter of the path changes nothing.
\<close>

fun uniquePaymentId :: "payment list \<Rightarrow> string list \<Rightarrow> string option" where
  "uniquePaymentId ps [] = None"
| "uniquePaymentId ps (c # cs) =
     (if find (\<lambda>p. p_paymentId p = c) ps = None then Some c else uniquePaymentId ps cs)"

text \<open>
  \<^verbatim>\<open>renewMembership\<close>.  Besides the store and the arguments the model takes what the
  environment supplies: the generated payment identifiers, the \<open>_id\<close> of the new payment
  document and the current time (the default of \<open>paymentDate\<close>).  \<open>processedBy\<close> is the
  authenticated user's id.
\<close>

definition renewMembership ::
  "store \<Rightarrow> string list \<Rightarrow> objectId \<Rightarrow> jsDate \<Rightarrow> string \<Rightarrow> renewalData \<Rightarrow> objectId
     \<Rightarrow> ((jsError + renewalResult) \<times> store) option" where
  "renewMembership s generated newId now memberId renewalData processedBy =
     (case findById m_id (members s) memberId of
        Inl e \<Rightarrow> Some (Inl e, s)
      | Inr None \<Rightarrow> Some (Inl (newError ''Member not found''), s)
      | Inr (Some member) \<Rightarrow>
          if \<not> m_isActive member then Some (Inl (newError ''Member not found''), s)
          else
            let currentRenewalDate = m_renewalDate member;
                newRenewalDate =
                  setMonth currentRenewalDate
                    (getMonth currentRenewalDate + renewalPeriod renewalData)
            in (case uniquePaymentId (payments s) generated of
                  None \<Rightarrow> None
                | Some paymentId \<Rightarrow>
                    let payment =
                          \<lparr>p_id = newId,
                           p_paymentId = paymentId,
                           p_member = m_id member,
                           p_amount = paymentAmount renewalData,
                           p_paymentType = ''Membership Fee'',
                           p_paymentMethod = paymentMethod renewalData,
                           p_status = ''Completed'',
                           p_transactionId = transactionId renewalData,
                           p_description = Some (''Membership renewal for ''
                              @ string_of_int (renewalPeriod renewalData) @ '' months''),
                           p_receiptFile = None,
                           p_event = None,
                           p_paymentDate = now,
                           p_processedBy = Some processedBy,
                           p_isActive = True\<rparr>;
                        problems = checkAmount (p_amount payment)
                          @ checkRequiredEnum ''paymentMethod'' ''Payment method is required''
                              paymentMethodEnum (p_paymentMethod payment)
                    in if problems \<noteq> [] then Some (Inl (validationError ''Payment'' problems), s)
                       else
                         let s1 = s\<lparr>payments := payments s @ [payment]\<rparr>;
                             member' = member\<lparr>m_renewalDate := newRenewalDate,
                                               m_status := ''Active''\<rparr>;
                             s2 = s1\<lparr>members := saveDoc m_id member' (members s1)\<rparr>
                         in Some (Inr \<lparr>rr_member = member', rr_payment = payment,
                                       previousRenewalDate = currentRenewalDate,
                                       newRenewalDate = newRenewalDate\<rparr>, s2)))"

text \<open>
  \<^verbatim>\<open>MemberController.updateExpiredMembers\<close> calls
  \<^verbatim>\<open>MemberService.updateExpiredMembers()\<close> inside try/catch.  MemberService has no
  property of that name, so the call throws a TypeError, which the catch hands to the
  error middleware; no document is read or written.
\<close>

definition MemberController_updateExpiredMembers :: "store \<Rightarrow> (jsError + httpResponse) \<times> store" where
  "MemberController_updateExpiredMembers s =
     (errorHandler (typeError ''MemberService.updateExpiredMembers is not a function''), s)"

definition MemberController_getMemberById :: "store \<Rightarrow> string \<Rightarrow> jsError + httpResponse" where
  "MemberController_getMemberById s memberId =
     (case getMemberById s memberId of
        Inr member \<Rightarrow> jsonOk OK ''Member retrieved successfully''
      | Inl e \<Rightarrow> errorHandler e)"

section \<open>EventService.registerMemberForEvent\<close>

text \<open>
  \<^verbatim>\<open>event.maxAttendees && event.attendees.length >= event.maxAttendees\<close>: an
  undefined cap and the cap 0 are both falsy.
\<close>

definition atCapacity :: "event \<Rightarrow> bool" where
  "atCapacity event =
     (case ev_maxAttendees event of
        None \<Rightarrow> False
      | Some cap \<Rightarrow> cap \<noteq> 0 \<and> length (ev_attendees event) \<ge> cap)"

text \<open>
  \<^verbatim>\<open>registerMemberForEvent\<close>.  \<open>now\<close> is the default of \<open>registrationDate\<close>.  The
  two lookups run under \<^verbatim>\<open>Promise.all\<close>; a cast failure of the event id is reported
  before one of the member id.  The duplicate test compares the printed form of each
  attendee's member reference with the string the caller passed.
\<close>

definition registerMemberForEvent ::
  "store \<Rightarrow> jsDate \<Rightarrow> string \<Rightarrow> string \<Rightarrow> (jsError + event) \<times> store" where
  "registerMemberForEvent s now eventId memberId =
     (case findById ev_id (events s) eventId of
        Inl e \<Rightarrow> (Inl e, s)
      | Inr eventOpt \<Rightarrow>
     (case findById m_id (members s) memberId of
        Inl e \<Rightarrow> (Inl e, s)
      | Inr memberOpt \<Rightarrow>
     (case eventOpt of
        None \<Rightarrow> (Inl (newError ''Event not found''), s)
      | Some event \<Rightarrow>
          if \<not> ev_isActive event then (Inl (newError ''Event not found''), s)
          else
     (case memberOpt of
        None \<Rightarrow> (Inl (newError ''Member not found''), s)
      | Some member \<Rightarrow>
          if \<not> m_isActive member then (Inl (newError ''Member not found''), s)
          else if ev_status event \<noteq> ''Upcoming''
          then (Inl (newError ''Event is not accepting registrations''), s)
          else if find (\<lambda>attendee. toString (a_member attendee) = memberId)
                    (ev_attendees event) \<noteq> None
          then (Inl (newError ''Member is already registered for this event''), s)
          else if atCapacity event
          then (Inl (newError ''Event is at maximum capacity''), s)
          else
            let event' = event\<lparr>ev_attendees := ev_attendees event @
                           [\<lparr>a_member = m_id member,
                             a_registrationDate = now,
                             a_attendanceStatus = ''Registered'',
                             a_paymentStatus =
                               (if ev_registrationFee event > 0 then ''Pending'' else ''Paid'')\<rparr>]\<rparr>
            in (Inr event', s\<lparr>events := saveDoc ev_id event' (events s)\<rparr>)))))"

text \<open>A sequence of registration calls for one event, whatever each call returns.\<close>

fun registerAll :: "store \<Rightarrow> jsDate \<Rightarrow> string \<Rightarrow> string list \<Rightarrow> store" where
  "registerAll s now eventId [] = s"
| "registerAll s now eventId (memberId # rest) =
     registerAll (snd (registerMemberForEvent s now eventId memberId)) now eventId rest"

section \<open>PaymentService\<close>

definition getPaymentById :: "store \<Rightarrow> string \<Rightarrow> jsError + payment" where
  "getPaymentById s paymentId =
     (case findById p_id (payments s) paymentId of
        Inl e \<Rightarrow> Inl e
      | Inr None \<Rightarrow> Inl (newError ''Payment not found'')
      | Inr (Some payment) \<Rightarrow>
          if \<not> p_isActive payment then Inl (newError ''Payment not found'') else Inr payment)"

text \<open>
  \<^verbatim>\<open>uploadReceipt\<close>: the one place where the thrown error carries a status code.
\<close>

definition uploadReceipt :: "store \<Rightarrow> string \<Rightarrow> string \<Rightarrow> (jsError + payment) \<times> store" where
  "uploadReceipt s paymentId receiptUrl =
     (case findById p_id (payments s) paymentId of
        Inl e \<Rightarrow> (Inl e, s)
      | Inr None \<Rightarrow> (Inl ((newError ''Payment not found'')\<lparr>e_statusCode := Some 404\<rparr>), s)
      | Inr (Some payment) \<Rightarrow>
          if \<not> p_isActive payment
          then (Inl ((newError ''Payment not found'')\<lparr>e_statusCode := Some 404\<rparr>), s)
          else let updatedPayment = payment\<lparr>p_receiptFile := Some receiptUrl\<rparr>
               in (Inr updatedPayment, s\<lparr>payments := saveDoc p_id updatedPayment (payments s)\<rparr>))"

text \<open>
  The body of an update request: for every path of the Payment schema the value the body
  gives it, \<open>None\<close> when the body has no such key.  References are strings still to be cast.
\<close>

record paymentUpdate =
  pu_status :: "string option"
  pu_transactionId :: "string option"
  pu_description :: "string option"
  pu_paymentId :: "string option"
  pu_member :: "string option"
  pu_amount :: "rat option"
  pu_paymentType :: "string option"
  pu_paymentMethod :: "string option"
  pu_receiptFile :: "string option"
  pu_event :: "string option"
  pu_paymentDate :: "jsDate option"
  pu_processedBy :: "string option"
  pu_isActive :: "bool option"

text \<open>
  \<^verbatim>\<open>updatePaymentSchema\<close> as \<^verbatim>\<open>validate\<close> applies it to the body: a Joi object
  admits only the keys it lists; \<open>status\<close> is one of the four values; \<open>transactionId\<close>
  and \<open>description\<close> are strings that are non-empty and within 100 and 500 characters
  once trimmed.
\<close>

definition joiTrimmedString :: "nat \<Rightarrow> string option \<Rightarrow> bool" where
  "joiTrimmedString maxLen v =
     (case v of None \<Rightarrow> True | Some x \<Rightarrow> trim x \<noteq> [] \<and> length (trim x) \<le> maxLen)"

definition updatePaymentSchema :: "paymentUpdate \<Rightarrow> bool" where
  "updatePaymentSchema b =
     ((case pu_status b of None \<Rightarrow> True | Some v \<Rightarrow> v \<in> set paymentStatusEnum)
      \<and> joiTrimmedString 100 (pu_transactionId b)
      \<and> joiTrimmedString 500 (pu_description b)
      \<and> pu_paymentId b = None \<and> pu_member b = None \<and> pu_amount b = None
      \<and> pu_paymentType b = None \<and> pu_paymentMethod b = None \<and> pu_receiptFile b = None
      \<and> pu_event b = None \<and> pu_paymentDate b = None \<and> pu_processedBy b = None
      \<and> pu_isActive b = None)"

text \<open>
  \<^verbatim>\<open>Object.assign(payment, updateData)\<close> on a Mongoose document: every key of the body
  sets its path, through the path's setter (\<open>trim\<close> for the description, \<open>uppercase\<close> for
  the payment identifier) and cast.
\<close>

definition setOpt :: "'a option \<Rightarrow> ('a \<Rightarrow> 'd \<Rightarrow> 'd) \<Rightarrow> 'd \<Rightarrow> 'd" where
  "setOpt v f d = (case v of None \<Rightarrow> d | Some x \<Rightarrow> f x d)"

definition setRef ::
  "string option \<Rightarrow> (objectId \<Rightarrow> 'd \<Rightarrow> 'd) \<Rightarrow> 'd \<Rightarrow> 'd" where
  "setRef v f d =
     (case v of None \<Rightarrow> d
      | Some x \<Rightarrow> (case castObjectId x of None \<Rightarrow> d | Some i \<Rightarrow> f i d))"

definition assignPayment :: "payment \<Rightarrow> paymentUpdate \<Rightarrow> payment" where
  "assignPayment payment b =
     (setOpt (pu_status b) (\<lambda>v p. p\<lparr>p_status := v\<rparr>)
      (setOpt (pu_transactionId b) (\<lambda>v p. p\<lparr>p_transactionId := Some v\<rparr>)
      (setOpt (pu_description b) (\<lambda>v p. p\<lparr>p_description := Some (trim v)\<rparr>)
      (setOpt (pu_paymentId b) (\<lambda>v p. p\<lparr>p_paymentId := toUpperCase v\<rparr>)
      (setRef (pu_member b) (\<lambda>i p. p\<lparr>p_member := i\<rparr>)
      (setOpt (pu_amount b) (\<lambda>v p. p\<lparr>p_amount := v\<rparr>)
      (setOpt (pu_paymentType b) (\<lambda>v p. p\<lparr>p_paymentType := v\<rparr>)
      (setOpt (pu_paymentMethod b) (\<lambda>v p. p\<lparr>p_paymentMethod := v\<rparr>)
      (setOpt (pu_receiptFile b) (\<lambda>v p. p\<lparr>p_receiptFile := Some v\<rparr>)
      (setRef (pu_event b) (\<lambda>i p. p\<lparr>p_event := Some i\<rparr>)
      (setOpt (pu_paymentDate b) (\<lambda>v p. p\<lparr>p_paymentDate := v\<rparr>)
      (setRef (pu_processedBy b) (\<lambda>i p. p\<lparr>p_processedBy := Some i\<rparr>)
      (setOpt (pu_isActive b) (\<lambda>v p. p\<lparr>p_isActive := v\<rparr>) payment)))))))))))))"

text \<open>
  The validation of \<^verbatim>\<open>save()\<close> on the paths the body set (the other paths are those
  of the stored document, taken to be valid).  A reference that does not cast is a failure
  of its path.
\<close>

definition checkOpt :: "'a option \<Rightarrow> ('a \<Rightarrow> (string \<times> string) list) \<Rightarrow> (string \<times> string) list" where
  "checkOpt v f = (case v of None \<Rightarrow> [] | Some x \<Rightarrow> f x)"

definition checkRef :: "string \<Rightarrow> string \<Rightarrow> (string \<times> string) list" where
  "checkRef path v =
     (case castObjectId v of
        None \<Rightarrow> [(path, e_message (castError v))]
      | Some i \<Rightarrow> [])"

definition validatePaymentUpdate :: "paymentUpdate \<Rightarrow> (string \<times> string) list" where
  "validatePaymentUpdate b =
     checkOpt (pu_paymentId b)
         (\<lambda>v. if v = [] then [(''paymentId'', ''Payment ID is required'')] else [])
     @ checkOpt (pu_member b) (checkRef ''member'')
     @ checkOpt (pu_amount b) checkAmount
     @ checkOpt (pu_paymentType b)
         (checkRequiredEnum ''paymentType'' ''Payment type is required'' paymentTypeEnum)
     @ checkOpt (pu_paymentMethod b)
         (checkRequiredEnum ''paymentMethod'' ''Payment method is required'' paymentMethodEnum)
     @ checkOpt (pu_status b) (checkEnum ''status'' paymentStatusEnum)
     @ checkOpt (pu_event b) (checkRef ''event'')
     @ checkOpt (pu_processedBy b) (checkRef ''processedBy'')"

definition updatePayment :: "store \<Rightarrow> string \<Rightarrow> paymentUpdate \<Rightarrow> (jsError + payment) \<times> store" where
  "updatePayment s paymentId updateData =
     (case findById p_id (payments s) paymentId of
        Inl e \<Rightarrow> (Inl e, s)
      | Inr None \<Rightarrow> (Inl (newError ''Payment not found''), s)
      | Inr (Some payment) \<Rightarrow>
          if \<not> p_isActive payment then (Inl (newError ''Payment not found''), s)
          else
            let payment' = assignPayment payment updateData;
                problems = validatePaymentUpdate updateData
            in if problems \<noteq> [] then (Inl (validationError ''Payment'' problems), s)
               else (Inr payment', s\<lparr>payments := saveDoc p_id payment' (payments s)\<rparr>))"

text \<open>
  The route \<^verbatim>\<open>PUT /payments/:id\<close> after authentication:
  \<^verbatim>\<open>validate(updatePaymentSchema)\<close>, which answers 400 itself and does not call the
  controller when the body fails the schema, then \<^verbatim>\<open>PaymentController.updatePayment\<close>.
  \<open>joiMessages\<close> stands for the text Joi composes for a rejected body.  The check of the
  route parameter, \<^verbatim>\<open>validateParams(paymentParamsSchema)\<close>, is left out: the route is
  considered for ids of the required form.
\<close>

definition putPayment ::
  "(paymentUpdate \<Rightarrow> string) \<Rightarrow> store \<Rightarrow> string \<Rightarrow> paymentUpdate
     \<Rightarrow> (jsError + httpResponse) \<times> store" where
  "putPayment joiMessages s paymentId body =
     (if \<not> updatePaymentSchema body
      then (Inr \<lparr>r_status = BAD_REQUEST, r_success = False, r_message = joiMessages body\<rparr>, s)
      else (case updatePayment s paymentId body of
              (Inr payment, s') \<Rightarrow> (jsonOk OK ''Payment updated successfully'', s')
            | (Inl e, s') \<Rightarrow> (errorHandler e, s')))"

definition PaymentController_getPaymentById :: "store \<Rightarrow> string \<Rightarrow> jsError + httpResponse" where
  "PaymentController_getPaymentById s paymentId =
     (case getPaymentById s paymentId of
        Inr payment \<Rightarrow> jsonOk OK ''Payment retrieved successfully''
      | Inl e \<Rightarrow> errorHandler e)"

section \<open>NotificationService.createNotification\<close>

record notificationData =
  nd_title :: string
  nd_message :: string
  nd_type :: string
  nd_priority :: "string option"
  nd_targetMembers :: "string list option"
  nd_status :: "string option"

definition notificationTypeEnum :: "string list" where
  "notificationTypeEnum = [''General'', ''Event'', ''Payment'', ''Membership'', ''Reminder'']"

definition notificationPriorityEnum :: "string list" where
  "notificationPriorityEnum = [''Low'', ''Medium'', ''High'', ''Urgent'']"

definition notificationStatusEnum :: "string list" where
  "notificationStatusEnum = [''Draft'', ''Scheduled'', ''Sent'', ''Failed'']"

text \<open>Casting a list of identifiers: the first one that does not cast raises its CastError.\<close>

fun castAll :: "string list \<Rightarrow> jsError + objectId list" where
  "castAll [] = Inr []"
| "castAll (x # xs) =
     (case castObjectId x of
        None \<Rightarrow> Inl (castError x)
      | Some i \<Rightarrow> (case castAll xs of Inl e \<Rightarrow> Inl e | Inr is \<Rightarrow> Inr (i # is)))"

text \<open>\<^verbatim>\<open>Member.find({ _id: { $in: targetMembers }, isActive: true })\<close>.\<close>

definition findActiveMembersIn :: "member list \<Rightarrow> string list \<Rightarrow> jsError + member list" where
  "findActiveMembersIn ms targetMembers =
     (case castAll targetMembers of
        Inl e \<Rightarrow> Inl e
      | Inr ids \<Rightarrow> Inr (filter (\<lambda>m. m_id m \<in> set ids \<and> m_isActive m) ms))"

definition checkText :: "string \<Rightarrow> string \<Rightarrow> nat \<Rightarrow> string \<Rightarrow> string \<Rightarrow> (string \<times> string) list" where
  "checkText path requiredMsg maxLen maxMsg v =
     (if v = [] then [(path, requiredMsg)]
      else if length v > maxLen then [(path, maxMsg)] else [])"

definition validateNotification :: "notification \<Rightarrow> (string \<times> string) list" where
  "validateNotification n =
     checkText ''title'' ''Notification title is required'' 200
         ''Title cannot exceed 200 characters'' (n_title n)
     @ checkText ''message'' ''Notification message is required'' 1000
         ''Message cannot exceed 1000 characters'' (n_message n)
     @ checkRequiredEnum ''type'' ''Notification type is required'' notificationTypeEnum (n_type n)
     @ checkEnum ''priority'' notificationPriorityEnum (n_priority n)
     @ checkEnum ''status'' notificationStatusEnum (n_status n)"

text \<open>
  \<^verbatim>\<open>createNotification\<close>; \<open>newId\<close> and \<open>now\<close> are the \<open>_id\<close> and the \<open>sentAt\<close>
  default of the new document, \<open>sentBy\<close> the authenticated user's id.
\<close>

definition createNotification ::
  "store \<Rightarrow> objectId \<Rightarrow> jsDate \<Rightarrow> notificationData \<Rightarrow> objectId
     \<Rightarrow> (jsError + notification) \<times> store" where
  "createNotification s newId now notificationData sentBy =
     (let targetMembers = (case nd_targetMembers notificationData of None \<Rightarrow> [] | Some ts \<Rightarrow> ts);
          checked =
            (if length targetMembers > 0
             then (case findActiveMembersIn (members s) targetMembers of
                     Inl e \<Rightarrow> Some e
                   | Inr found \<Rightarrow>
                       if length found \<noteq> length targetMembers
                       then Some (newError ''One or more target members not found'')
                       else None)
             else None)
      in case checked of
           Some e \<Rightarrow> (Inl e, s)
         | None \<Rightarrow>
             (case castAll targetMembers of
                Inl e \<Rightarrow> (Inl e, s)
              | Inr ids \<Rightarrow>
                  let notification =
                        \<lparr>n_id = newId,
                         n_title = trim (nd_title notificationData),
                         n_message = trim (nd_message notificationData),
                         n_type = nd_type notificationData,
                         n_priority = (case nd_priority notificationData of
                                         None \<Rightarrow> ''Medium'' | Some v \<Rightarrow> v),
                         n_targetMembers = ids,
                         n_sentBy = sentBy,
                         n_sentAt = now,
                         n_status = (case nd_status notificationData of
                                       None \<Rightarrow> ''Sent'' | Some v \<Rightarrow> v),
                         n_isRead = False,
                         n_isActive = True\<rparr>;
                      problems = validateNotification notification
                  in if problems \<noteq> []
                     then (Inl (validationError ''Notification'' problems), s)
                     else (Inr notification,
                           s\<lparr>notifications := notifications s @ [notification]\<rparr>)))"

section \<open>AuthService.login\<close>

text \<open>The user as returned to the client: the document without its password.\<close>

record userResponse =
  ur_id :: objectId
  ur_name :: string
  ur_email :: string
  ur_role :: string
  ur_isActive :: bool

definition toUserResponse :: "user \<Rightarrow> userResponse" where
  "toUserResponse u = \<lparr>ur_id = u_id u, ur_name = u_name u, ur_email = u_email u,
     ur_role = u_role u, ur_isActive = u_isActive u\<rparr>"

text \<open>
  \<^verbatim>\<open>User.findOne({ email })\<close>; the \<open>lowercase\<close> setter of the path applies to the
  filter.
\<close>

definition findUserByEmail :: "user list \<Rightarrow> string \<Rightarrow> user option" where
  "findUserByEmail us email = find (\<lambda>u. u_email u = toLowerCase email) us"

text \<open>
  \<^verbatim>\<open>login\<close>.  \<open>bcryptCompare candidate hash\<close> stands for \<^verbatim>\<open>bcrypt.compare\<close> and
  \<open>jwtSign\<close> for \<^verbatim>\<open>generateToken\<close>; both are libraries outside the repository.
\<close>

definition login ::
  "(string \<Rightarrow> string \<Rightarrow> bool) \<Rightarrow> (objectId \<Rightarrow> string) \<Rightarrow> store \<Rightarrow> string \<Rightarrow> string
     \<Rightarrow> jsError + userResponse \<times> string" where
  "login bcryptCompare jwtSign s email password =
     (case findUserByEmail (users s) email of
        None \<Rightarrow> Inl (newError ''Invalid credentials'')
      | Some u \<Rightarrow>
          if \<not> u_isActive u then Inl (newError ''Account is deactivated'')
          else if \<not> bcryptCompare password (u_password u)
          then Inl (newError ''Invalid credentials'')
          else Inr (toUserResponse u, jwtSign (u_id u)))"

definition AuthController_login ::
  "(string \<Rightarrow> string \<Rightarrow> bool) \<Rightarrow> (objectId \<Rightarrow> string) \<Rightarrow> store \<Rightarrow> string \<Rightarrow> string
     \<Rightarrow> jsError + httpResponse" where
  "AuthController_login bcryptCompare jwtSign s email password =
     (case login bcryptCompare jwtSign s email password of
        Inr result \<Rightarrow> jsonOk OK ''Login successful''
      | Inl e \<Rightarrow> errorHandler e)"

section \<open>A sample store\<close>

text \<open>
  Two users, two members of the zone North (the second one disabled), an empty zone South,
  one upcoming event with room for two, and two payments, the second one soft-deleted.
\<close>

definition noon :: jsDate where
  "noon = \<lparr>d_year = 2024, d_month = 5, d_date = 1, d_msInDay = 43200000\<rparr>"

definition idAlice :: string where "idAlice = ''64a1f0c2b3d4e5f6a7b8c9d0''"
definition idAliceUpper :: string where "idAliceUpper = ''64A1F0C2B3D4E5F6A7B8C9D0''"
definition idBob :: string where "idBob = ''64a1f0c2b3d4e5f6a7b8c9d1''"
definition idNorth :: string where "idNorth = ''64a1f0c2b3d4e5f6a7b8c9e0''"
definition idSouth :: string where "idSouth = ''64a1f0c2b3d4e5f6a7b8c9e1''"
definition idGala :: string where "idGala = ''64a1f0c2b3d4e5f6a7b8c9f0''"
definition idPay1 :: string where "idPay1 = ''64a1f0c2b3d4e5f6a7b8ca01''"
definition idPay2 :: string where "idPay2 = ''64a1f0c2b3d4e5f6a7b8ca02''"
definition idAdmin :: string where "idAdmin = ''64a1f0c2b3d4e5f6a7b8cb01''"
definition idUserA :: string where "idUserA = ''64a1f0c2b3d4e5f6a7b8cb02''"
definition idUserB :: string where "idUserB = ''64a1f0c2b3d4e5f6a7b8cb03''"
definition idFresh :: string where "idFresh = ''64a1f0c2b3d4e5f6a7b8cc01''"

definition sampleHash :: "string \<Rightarrow> string" where
  "sampleHash pw = ''hash:'' @ pw"

definition sampleCompare :: "string \<Rightarrow> string \<Rightarrow> bool" where
  "sampleCompare candidate hash = (hash = sampleHash candidate)"

definition sampleSign :: "objectId \<Rightarrow> string" where
  "sampleSign i = ''token:'' @ toString i"

definition admin :: user where
  "admin = \<lparr>u_id = ObjectId idAdmin, u_name = ''Root'', u_email = ''root@example.com'',
     u_password = sampleHash ''Secret1'', u_role = ''Admin'', u_isActive = True\<rparr>"

definition userAlice :: user where
  "userAlice = \<lparr>u_id = ObjectId idUserA, u_name = ''Alice'', u_email = ''alice@example.com'',
     u_password = sampleHash ''Wonder1'', u_role = ''Member'', u_isActive = True\<rparr>"

definition userBob :: user where
  "userBob = \<lparr>u_id = ObjectId idUserB, u_name = ''Bob'', u_email = ''bob@example.com'',
     u_password = sampleHash ''Builder1'', u_role = ''Member'', u_isActive = False\<rparr>"

definition alice :: member where
  "alice = \<lparr>m_id = ObjectId idAlice, m_user = ObjectId idUserA, m_memberId = ''MEMLX1A2B3C4D'',
     m_name = ''Alice'', m_phone = ''+1 555 0100'', m_zone = ObjectId idNorth,
     m_membershipType = ''Basic'', m_status = ''Expired'',
     m_joinDate = \<lparr>d_year = 2023, d_month = 0, d_date = 31, d_msInDay = 0\<rparr>,
     m_renewalDate = \<lparr>d_year = 2024, d_month = 0, d_date = 31, d_msInDay = 0\<rparr>,
     m_qrCode = None, m_isActive = True\<rparr>"

definition bob :: member where
  "bob = \<lparr>m_id = ObjectId idBob, m_user = ObjectId idUserB, m_memberId = ''MEMLX1A2B3C4E'',
     m_name = ''Bob'', m_phone = ''+1 555 0101'', m_zone = ObjectId idNorth,
     m_membershipType = ''VIP'', m_status = ''Inactive'',
     m_joinDate = \<lparr>d_year = 2023, d_month = 1, d_date = 1, d_msInDay = 0\<rparr>,
     m_renewalDate = \<lparr>d_year = 2024, d_month = 1, d_date = 1, d_msInDay = 0\<rparr>,
     m_qrCode = None, m_isActive = False\<rparr>"

definition north :: zone where
  "north = \<lparr>z_id = ObjectId idNorth, z_name = ''North'', z_description = ''Northern area'',
     z_isActive = True\<rparr>"

definition south :: zone where
  "south = \<lparr>z_id = ObjectId idSouth, z_name = ''South'', z_description = ''Southern area'',
     z_isActive = True\<rparr>"

definition gala :: event where
  "gala = \<lparr>ev_id = ObjectId idGala, ev_title = ''Gala'', ev_description = ''Annual gala dinner'',
     ev_eventDate = \<lparr>d_year = 2024, d_month = 8, d_date = 14, d_msInDay = 64800000\<rparr>,
     ev_location = ''Town hall'', ev_maxAttendees = Some 2, ev_registrationFee = 50,
     ev_status = ''Upcoming'', ev_attendees = [], ev_createdBy = ObjectId idAdmin,
     ev_isActive = True\<rparr>"

definition pay1 :: payment where
  "pay1 = \<lparr>p_id = ObjectId idPay1, p_paymentId = ''PAYLX1A2B3C4D'', p_member = ObjectId idAlice,
     p_amount = 50, p_paymentType = ''Event Registration'', p_paymentMethod = ''Cash'',
     p_status = ''Pending'', p_transactionId = None, p_description = None,
     p_receiptFile = None, p_event = Some (ObjectId idGala), p_paymentDate = noon,
     p_processedBy = Some (ObjectId idAdmin), p_isActive = True\<rparr>"

definition pay2 :: payment where
  "pay2 = \<lparr>p_id = ObjectId idPay2, p_paymentId = ''PAYLX1A2B3C4E'', p_member = ObjectId idBob,
     p_amount = 20, p_paymentType = ''Late Fee'', p_paymentMethod = ''Online'',
     p_status = ''Failed'', p_transactionId = Some ''TX-9'', p_description = None,
     p_receiptFile = None, p_event = None, p_paymentDate = noon,
     p_processedBy = Some (ObjectId idAdmin), p_isActive = False\<rparr>"

definition sampleStore :: store where
  "sampleStore = \<lparr>users = [admin, userAlice, userBob], members = [alice, bob],
     zones = [north, south], events = [gala], payments = [pay1, pay2], notifications = []\<rparr>"

text \<open>The sample store after Alice has registered for the gala, once and twice.\<close>

definition aliceRegistered :: attendee where
  "aliceRegistered = \<lparr>a_member = ObjectId idAlice, a_registrationDate = noon,
     a_attendanceStatus = ''Registered'', a_paymentStatus = ''Pending''\<rparr>"

definition galaWithAlice :: event where
  "galaWithAlice = gala\<lparr>ev_attendees := [aliceRegistered]\<rparr>"

definition storeWithAlice :: store where
  "storeWithAlice = sampleStore\<lparr>events := [galaWithAlice]\<rparr>"

definition galaWithAliceTwice :: event where
  "galaWithAliceTwice = gala\<lparr>ev_attendees := [aliceRegistered, aliceRegistered]\<rparr>"

definition storeWithAliceTwice :: store where
  "storeWithAliceTwice = sampleStore\<lparr>events := [galaWithAliceTwice]\<rparr>"

text \<open>The gala after it was held: one attendee came, one did not, one is still pending.\<close>

definition idCarol :: string where "idCarol = ''64a1f0c2b3d4e5f6a7b8c9d2''"

definition galaHeld :: event where
  "galaHeld = gala\<lparr>ev_maxAttendees := None, ev_status := ''Completed'',
     ev_attendees :=
       [aliceRegistered\<lparr>a_attendanceStatus := ''Attended'', a_paymentStatus := ''Paid''\<rparr>,
        aliceRegistered\<lparr>a_member := ObjectId idBob, a_attendanceStatus := ''No Show''\<rparr>,
        aliceRegistered\<lparr>a_member := ObjectId idCarol\<rparr>]\<rparr>"

definition storeAfterGala :: store where
  "storeAfterGala = sampleStore\<lparr>events := [galaHeld]\<rparr>"

text \<open>A notification addressed to Alice twice, and an update of a payment.\<close>

definition toAliceTwice :: notificationData where
  "toAliceTwice = \<lparr>nd_title = ''Dues'', nd_message = ''Your dues are payable now'',
     nd_type = ''Payment'', nd_priority = None, nd_targetMembers = Some [idAlice, idAlice],
     nd_status = None\<rparr>"

definition markCompleted :: paymentUpdate where
  "markCompleted = \<lparr>pu_status = Some ''Completed'', pu_transactionId = Some ''TX-17'',
     pu_description = Some '' paid at the desk '', pu_paymentId = None, pu_member = None,
     pu_amount = None, pu_paymentType = None, pu_paymentMethod = None, pu_receiptFile = None,
     pu_event = None, pu_paymentDate = None, pu_processedBy = None, pu_isActive = None\<rparr>"

definition sampleJoiMessages :: "paymentUpdate \<Rightarrow> string" where
  "sampleJoiMessages b = ''the body is not allowed''"

definition oneMonth :: renewalData where
  "oneMonth = \<lparr>renewalPeriod = 1, paymentAmount = 100, paymentMethod = ''Cash'',
     transactionId = None\<rparr>"

section \<open>Facts about the sample store and the error layer\<close>

lemmas sample_ids = idAlice_def idAliceUpper_def idBob_def idNorth_def idSouth_def idGala_def
  idPay1_def idPay2_def idAdmin_def idUserA_def idUserB_def idFresh_def

lemma cast_samples:
  "castObjectId idAlice = Some (ObjectId idAlice)"
  "castObjectId idAliceUpper = Some (ObjectId idAlice)"
  "castObjectId idBob = Some (ObjectId idBob)"
  "castObjectId idNorth = Some (ObjectId idNorth)"
  "castObjectId idSouth = Some (ObjectId idSouth)"
  "castObjectId idGala = Some (ObjectId idGala)"
  "castObjectId idPay1 = Some (ObjectId idPay1)"
  "castObjectId idPay2 = Some (ObjectId idPay2)"
  by (simp_all add: castObjectId_def isHexDigit_def lowerHexDigit_def sample_ids)

lemma cast_carol: "castObjectId idCarol = Some (ObjectId idCarol)"
  by (simp add: castObjectId_def isHexDigit_def lowerHexDigit_def idCarol_def)

lemma sample_ids_distinct:
  "idAlice \<noteq> idBob" "idBob \<noteq> idAlice" "idNorth \<noteq> idSouth" "idSouth \<noteq> idNorth"
  "idPay1 \<noteq> idPay2" "idPay2 \<noteq> idPay1" "idAlice \<noteq> idAliceUpper" "idAliceUpper \<noteq> idAlice"
  by (simp_all add: sample_ids)

text \<open>
  An error made by \<^verbatim>\<open>new Error(msg)\<close> has no status code of its own and none of the
  names the handler knows: the handler answers 500 with the error's message.
\<close>

lemma errorHandler_newError:
  "errorHandler (newError msg) =
     Inr \<lparr>r_status = 500, r_success = False,
          r_message = (if msg = [] then ''Server Error'' else msg)\<rparr>"
  by (simp add: errorHandler_def newError_def INTERNAL_SERVER_ERROR_def)

section \<open>Facts about lookups and saves\<close>

lemma find_saveDoc_same:
  assumes "find (\<lambda>x. idOf x = i) docs = Some d" and "idOf d' = i"
  shows "find (\<lambda>x. idOf x = i) (saveDoc idOf d' docs) = Some d'"
  using assms by (induction docs) (auto simp: saveDoc_def split: if_splits)

lemma find_id_Some: "find (\<lambda>x. idOf x = i) docs = Some d \<Longrightarrow> idOf d = i"
  by (auto simp: find_Some_iff)

lemma map_id_saveDoc: "map idOf (saveDoc idOf d docs) = map idOf docs"
  by (induction docs) (auto simp: saveDoc_def)

lemma toString_inj: "toString a = toString b \<longleftrightarrow> a = b"
  by (cases a; cases b) simp

lemma find_Some_mem: "find P xs = Some x \<Longrightarrow> x \<in> set xs"
  by (auto simp: find_Some_iff)

lemma saveDoc_elem:
  "x \<in> set (saveDoc idOf d docs) \<Longrightarrow> x = d \<or> x \<in> set docs"
  by (auto simp: saveDoc_def split: if_splits)

section \<open>Renewal\<close>

text \<open>
  \<^verbatim>\<open>setMonth\<close> keeps the day of the month when the target month has such a day, and
  otherwise runs over into the month after it.
\<close>

lemma setMonth_day_kept:
  assumes "d_date d \<le> daysInMonth (d_year d + mo div 12) (nat (mo mod 12))"
  shows "setMonth d mo = d\<lparr>d_year := d_year d + mo div 12, d_month := nat (mo mod 12)\<rparr>"
  using assms by (simp add: setMonth_def makeDay.simps)

lemma setMonth_jan31:
  "setMonth \<lparr>d_year = 2024, d_month = 0, d_date = 31, d_msInDay = 0\<rparr> 1
     = \<lparr>d_year = 2024, d_month = 2, d_date = 2, d_msInDay = 0\<rparr>"
  by (simp add: setMonth_def makeDay.simps daysInMonth_def isLeapYear_def)

text \<open>
  C1.  The claim says the new renewal date is the previous one plus \<open>renewalPeriod\<close>
  calendar months.  Alice's renewal date is 31 January 2024; renewing her for one month
  succeeds (the second generated payment identifier is free) and returns 2 March 2024 as
  the new renewal date, a date that is not in February.
\<close>

theorem renewMembership_month_end_overflow:
  "\<exists>r s'. renewMembership sampleStore [''PAYLX1A2B3C4D'', ''PAYLX9Z8Y7X6W''] (ObjectId idFresh) noon
        idAlice oneMonth (ObjectId idAdmin) = Some (Inr r, s')
     \<and> previousRenewalDate r = \<lparr>d_year = 2024, d_month = 0, d_date = 31, d_msInDay = 0\<rparr>
     \<and> newRenewalDate r = \<lparr>d_year = 2024, d_month = 2, d_date = 2, d_msInDay = 0\<rparr>
     \<and> p_paymentId (rr_payment r) = ''PAYLX9Z8Y7X6W''"
  by (simp add: renewMembership_def findById_def cast_samples sampleStore_def alice_def bob_def
      pay1_def pay2_def oneMonth_def getMonth_def setMonth_jan31 sample_ids_distinct
      checkAmount_def checkRequiredEnum_def checkEnum_def paymentMethodEnum_def Let_def)

text \<open>
  What the rest of the claim describes holds on the code.  The loop ends as soon as a
  generated identifier is free; the call then returns the member with status "Active" and
  the new date, and a completed "Membership Fee" payment of the requested amount, which is
  the one document added to the payments.  A missing or inactive member is reported as
  "Member not found" and nothing is written.
\<close>

lemma uniquePaymentId_Some:
  "\<exists>c \<in> set generated. find (\<lambda>p. p_paymentId p = c) ps = None \<Longrightarrow>
   \<exists>c. uniquePaymentId ps generated = Some c \<and> c \<in> set generated
        \<and> find (\<lambda>p. p_paymentId p = c) ps = None"
  by (induction generated) auto

lemma renewMembership_effects:
  assumes "castObjectId memberId = Some i"
      and "find (\<lambda>m. m_id m = i) (members s) = Some member"
      and "m_isActive member"
      and "uniquePaymentId (payments s) generated = Some paymentId"
      and "0 \<le> paymentAmount renewalData"
      and "paymentMethod renewalData \<in> set paymentMethodEnum"
  shows "\<exists>r s'. renewMembership s generated newId now memberId renewalData processedBy
                  = Some (Inr r, s')
     \<and> previousRenewalDate r = m_renewalDate member
     \<and> newRenewalDate r
         = setMonth (m_renewalDate member) (getMonth (m_renewalDate member) + renewalPeriod renewalData)
     \<and> rr_member r = member\<lparr>m_renewalDate := newRenewalDate r, m_status := ''Active''\<rparr>
     \<and> p_paymentType (rr_payment r) = ''Membership Fee''
     \<and> p_status (rr_payment r) = ''Completed''
     \<and> p_amount (rr_payment r) = paymentAmount renewalData
     \<and> p_member (rr_payment r) = i
     \<and> p_paymentId (rr_payment r) = paymentId
     \<and> payments s' = payments s @ [rr_payment r]
     \<and> members s' = saveDoc m_id (rr_member r) (members s)"
proof -
  have "paymentMethod renewalData \<noteq> []"
    using assms(6) by (auto simp: paymentMethodEnum_def)
  then have ok: "checkAmount (paymentAmount renewalData)
      @ checkRequiredEnum ''paymentMethod'' ''Payment method is required'' paymentMethodEnum
          (paymentMethod renewalData) = []"
    using assms(5,6) by (simp add: checkAmount_def checkRequiredEnum_def checkEnum_def)
  have "m_id member = i"
    by (rule find_id_Some [OF assms(2)])
  then show ?thesis
    using assms(1-4) ok
    by (simp add: renewMembership_def findById_def Let_def)
qed

lemma renewMembership_not_found:
  assumes "castObjectId memberId = Some i"
      and "find (\<lambda>m. m_id m = i) (members s) = None
           \<or> (\<exists>member. find (\<lambda>m. m_id m = i) (members s) = Some member \<and> \<not> m_isActive member)"
  shows "renewMembership s generated newId now memberId renewalData processedBy
           = Some (Inl (newError ''Member not found''), s)"
  using assms by (auto simp: renewMembership_def findById_def)

section \<open>The expiry sweep\<close>

text \<open>
  C2.  The claim promises an operation \<^verbatim>\<open>updateExpiredMembers\<close> that moves every active
  member whose renewal date has passed to the status Expired and returns how many it moved.
  The code has only the controller of that name: MemberService defines no such method, so
  for every store the controller's call throws, the error layer answers 500 with the
  TypeError's message, and the store is returned as it was.
\<close>

theorem updateExpiredMembers_not_provided:
  "''updateExpiredMembers'' \<notin> set MemberService_methods
   \<and> MemberController_updateExpiredMembers s
       = (Inr \<lparr>r_status = 500, r_success = False,
               r_message = ''MemberService.updateExpiredMembers is not a function''\<rparr>, s)"
  by (simp add: MemberService_methods_def MemberController_updateExpiredMembers_def
      errorHandler_def typeError_def newError_def INTERNAL_SERVER_ERROR_def)

section \<open>Event registration\<close>

lemma register_alice:
  "registerMemberForEvent sampleStore noon idGala idAlice = (Inr galaWithAlice, storeWithAlice)"
  by (simp add: registerMemberForEvent_def findById_def cast_samples sampleStore_def alice_def
      bob_def gala_def sample_ids_distinct atCapacity_def saveDoc_def Let_def
      galaWithAlice_def storeWithAlice_def aliceRegistered_def)

lemma register_alice_upper:
  "registerMemberForEvent storeWithAlice noon idGala idAliceUpper
     = (Inr galaWithAliceTwice, storeWithAliceTwice)"
  by (simp add: registerMemberForEvent_def findById_def cast_samples sampleStore_def alice_def
      bob_def gala_def sample_ids_distinct atCapacity_def saveDoc_def Let_def
      galaWithAlice_def storeWithAlice_def aliceRegistered_def
      galaWithAliceTwice_def storeWithAliceTwice_def)

text \<open>
  C3.  The claim says that after any sequence of registrations a member reference occurs at
  most once among an event's attendees, and that registering a registered member fails.
  Registering Alice for the gala under her id in lower case and then under the same id in
  upper case succeeds twice: the attendee list of the gala ends with her reference in it
  twice.
\<close>

theorem registerAll_duplicate_attendee:
  "registerAll sampleStore noon idGala [idAlice, idAliceUpper] = storeWithAliceTwice
   \<and> events storeWithAliceTwice = [galaWithAliceTwice]
   \<and> map a_member (ev_attendees galaWithAliceTwice) = [ObjectId idAlice, ObjectId idAlice]
   \<and> \<not> distinct (map a_member (ev_attendees galaWithAliceTwice))"
  by (simp add: register_alice register_alice_upper storeWithAliceTwice_def galaWithAliceTwice_def
      aliceRegistered_def)

text \<open>
  What a registration call does to the store: nothing, or it saves one event that was not
  at capacity with one attendee more, whose printed member reference the list did not
  contain as the string that was passed.
\<close>

lemma registerMemberForEvent_cases:
  "snd (registerMemberForEvent s now eventId memberId) = s
   \<or> (\<exists>event mi a. event \<in> set (events s) \<and> castObjectId memberId = Some mi
        \<and> \<not> atCapacity event
        \<and> find (\<lambda>attendee. toString (a_member attendee) = memberId) (ev_attendees event) = None
        \<and> a_member a = mi
        \<and> snd (registerMemberForEvent s now eventId memberId)
            = s\<lparr>events := saveDoc ev_id (event\<lparr>ev_attendees := ev_attendees event @ [a]\<rparr>)
                            (events s)\<rparr>)"
proof (cases "findById ev_id (events s) eventId")
  case (Inl e)
  then show ?thesis by (simp add: registerMemberForEvent_def)
next
  case evLookup: (Inr eventOpt)
  show ?thesis
  proof (cases "findById m_id (members s) memberId")
    case (Inl e)
    then show ?thesis using evLookup by (simp add: registerMemberForEvent_def)
  next
    case memLookup: (Inr memberOpt)
    show ?thesis
    proof (cases eventOpt)
      case None
      then show ?thesis using evLookup memLookup by (simp add: registerMemberForEvent_def)
    next
      case (Some event)
      then have mem: "event \<in> set (events s)"
        using evLookup by (auto simp: findById_def split: option.splits dest: find_Some_mem)
      show ?thesis
      proof (cases memberOpt)
        case None
        then show ?thesis
          using evLookup memLookup Some by (simp add: registerMemberForEvent_def)
      next
        case member: (Some member)
        then have cast: "castObjectId memberId = Some (m_id member)"
          using memLookup by (auto simp: findById_def split: option.splits dest: find_id_Some)
        show ?thesis
        proof (cases "atCapacity event
            \<or> find (\<lambda>attendee. toString (a_member attendee) = memberId) (ev_attendees event) \<noteq> None")
          case True
          then show ?thesis
            using evLookup memLookup Some member by (auto simp: registerMemberForEvent_def)
        next
          case free: False
          define a where "a = \<lparr>a_member = m_id member, a_registrationDate = now,
            a_attendanceStatus = ''Registered'',
            a_paymentStatus = (if ev_registrationFee event > 0 then ''Pending'' else ''Paid'')\<rparr>"
          show ?thesis
          proof (cases "ev_isActive event \<and> m_isActive member \<and> ev_status event = ''Upcoming''")
            case False
            then show ?thesis
              using evLookup memLookup Some member by (auto simp: registerMemberForEvent_def)
          next
            case True
            then have "snd (registerMemberForEvent s now eventId memberId)
                = s\<lparr>events := saveDoc ev_id (event\<lparr>ev_attendees := ev_attendees event @ [a]\<rparr>)
                                (events s)\<rparr>"
              using evLookup memLookup Some member free
              by (simp add: registerMemberForEvent_def Let_def a_def)
            moreover have "a_member a = m_id member"
              by (simp add: a_def)
            ultimately show ?thesis
              using mem cast free
              by (intro disjI2 exI [of _ event] exI [of _ "m_id member"] exI [of _ a]) simp
          qed
        qed
      qed
    qed
  qed
qed

text \<open>
  The capacity half of the invariant holds for every sequence of calls: an event whose
  attendee count is within its cap stays within it.
\<close>

lemma registerMemberForEvent_keeps_capacity:
  assumes "\<forall>e \<in> set (events s). \<forall>cap. ev_maxAttendees e = Some cap \<longrightarrow> 0 < cap \<longrightarrow>
             length (ev_attendees e) \<le> cap"
  shows "\<forall>e \<in> set (events (snd (registerMemberForEvent s now eventId memberId))).
           \<forall>cap. ev_maxAttendees e = Some cap \<longrightarrow> 0 < cap \<longrightarrow> length (ev_attendees e) \<le> cap"
proof -
  consider (same) "snd (registerMemberForEvent s now eventId memberId) = s"
    | (added) event a where "event \<in> set (events s)" "\<not> atCapacity event"
        "snd (registerMemberForEvent s now eventId memberId)
           = s\<lparr>events := saveDoc ev_id (event\<lparr>ev_attendees := ev_attendees event @ [a]\<rparr>)
                           (events s)\<rparr>"
    using registerMemberForEvent_cases [of s now eventId memberId] by blast
  then show ?thesis
  proof cases
    case same
    then show ?thesis using assms by simp
  next
    case added
    have "\<forall>cap. ev_maxAttendees event = Some cap \<longrightarrow> 0 < cap \<longrightarrow>
        length (ev_attendees event @ [a]) \<le> cap"
      using added(2) by (auto simp: atCapacity_def)
    then show ?thesis
      using assms added(3) by (auto dest!: saveDoc_elem)
  qed
qed

lemma registerAll_keeps_capacity:
  "\<forall>e \<in> set (events s). \<forall>cap. ev_maxAttendees e = Some cap \<longrightarrow> 0 < cap \<longrightarrow>
      length (ev_attendees e) \<le> cap \<Longrightarrow>
   \<forall>e \<in> set (events (registerAll s now eventId memberIds)).
      \<forall>cap. ev_maxAttendees e = Some cap \<longrightarrow> 0 < cap \<longrightarrow> length (ev_attendees e) \<le> cap"
proof (induction memberIds arbitrary: s)
  case Nil
  then show ?case by simp
next
  case (Cons memberId rest)
  have "\<forall>e \<in> set (events (snd (registerMemberForEvent s now eventId memberId))).
      \<forall>cap. ev_maxAttendees e = Some cap \<longrightarrow> 0 < cap \<longrightarrow> length (ev_attendees e) \<le> cap"
    by (rule registerMemberForEvent_keeps_capacity [OF Cons.prems])
  then show ?case
    using Cons.IH by simp
qed

text \<open>
  The other half holds for calls whose member id is written as stored references print:
  then the duplicate test sees every earlier registration of that member.
\<close>

lemma registerMemberForEvent_keeps_distinct:
  assumes "\<forall>e \<in> set (events s). distinct (map a_member (ev_attendees e))"
      and "\<forall>mi. castObjectId memberId = Some mi \<longrightarrow> toString mi = memberId"
  shows "\<forall>e \<in> set (events (snd (registerMemberForEvent s now eventId memberId))).
           distinct (map a_member (ev_attendees e))"
proof -
  consider (same) "snd (registerMemberForEvent s now eventId memberId) = s"
    | (added) event mi a where "event \<in> set (events s)" "castObjectId memberId = Some mi"
        "find (\<lambda>attendee. toString (a_member attendee) = memberId) (ev_attendees event) = None"
        "a_member a = mi"
        "snd (registerMemberForEvent s now eventId memberId)
           = s\<lparr>events := saveDoc ev_id (event\<lparr>ev_attendees := ev_attendees event @ [a]\<rparr>)
                           (events s)\<rparr>"
    using registerMemberForEvent_cases [of s now eventId memberId] by blast
  then show ?thesis
  proof cases
    case same
    then show ?thesis using assms(1) by simp
  next
    case added
    have "toString mi = memberId"
      using assms(2) added(2) by simp
    then have "mi \<notin> a_member ` set (ev_attendees event)"
      using added(3) by (auto simp: find_None_iff)
    then have "distinct (map a_member (ev_attendees event @ [a]))"
      using assms(1) added(1,4) by auto
    then show ?thesis
      using assms(1) added(5) by (auto dest!: saveDoc_elem)
  qed
qed

section \<open>The order of the registration checks\<close>

lemma find_printed_member:
  "(find (\<lambda>attendee. toString (a_member attendee) = toString mi) as \<noteq> None)
     \<longleftrightarrow> mi \<in> a_member ` set as"
  by (auto simp: find_None_iff toString_inj)

text \<open>
  C4, for well-formed ids.  Let the event id cast to \<open>ei\<close>, let the member id be the printed
  form of the ObjectId \<open>mi\<close> (24 hexadecimal digits in lower case), and let no stored event
  have the cap 0, which the schema forbids.  Then \<^verbatim>\<open>registerMemberForEvent\<close> decides in
  this order: no event under \<open>ei\<close> or an inactive one: "Event not found"; no member under
  \<open>mi\<close> or an inactive one: "Member not found"; a status other than "Upcoming": "Event is not
  accepting registrations"; \<open>mi\<close> among the attendees' member references: "Member is already
  registered for this event"; a cap that the attendee count has reached: "Event is at
  maximum capacity".  Each failure leaves the store as it was.  Otherwise the event is saved
  with one more attendee at the end of the list: \<open>mi\<close>, "Registered", and "Pending" when
  the registration fee is positive, "Paid" when it is not.
\<close>

theorem registerMemberForEvent_checks_in_order:
  assumes "castObjectId eventId = Some ei"
      and "castObjectId memberId = Some mi"
      and "toString mi = memberId"
      and "\<forall>e \<in> set (events s). ev_maxAttendees e \<noteq> Some 0"
  shows "registerMemberForEvent s now eventId memberId =
     (case find (\<lambda>d. ev_id d = ei) (events s) of
        None \<Rightarrow> (Inl (newError ''Event not found''), s)
      | Some event \<Rightarrow>
          if \<not> ev_isActive event then (Inl (newError ''Event not found''), s)
          else
            (case find (\<lambda>d. m_id d = mi) (members s) of
               None \<Rightarrow> (Inl (newError ''Member not found''), s)
             | Some member \<Rightarrow>
                 if \<not> m_isActive member then (Inl (newError ''Member not found''), s)
                 else if ev_status event \<noteq> ''Upcoming''
                 then (Inl (newError ''Event is not accepting registrations''), s)
                 else if mi \<in> a_member ` set (ev_attendees event)
                 then (Inl (newError ''Member is already registered for this event''), s)
                 else if (case ev_maxAttendees event of None \<Rightarrow> False
                          | Some cap \<Rightarrow> cap \<le> length (ev_attendees event))
                 then (Inl (newError ''Event is at maximum capacity''), s)
                 else
                   (Inr (event\<lparr>ev_attendees := ev_attendees event @
                           [\<lparr>a_member = mi, a_registrationDate = now,
                             a_attendanceStatus = ''Registered'',
                             a_paymentStatus = (if ev_registrationFee event > 0
                                                then ''Pending'' else ''Paid'')\<rparr>]\<rparr>),
                    s\<lparr>events := saveDoc ev_id
                         (event\<lparr>ev_attendees := ev_attendees event @
                           [\<lparr>a_member = mi, a_registrationDate = now,
                             a_attendanceStatus = ''Registered'',
                             a_paymentStatus = (if ev_registrationFee event > 0
                                                then ''Pending'' else ''Paid'')\<rparr>]\<rparr>)
                         (events s)\<rparr>)))"
proof (cases "find (\<lambda>d. ev_id d = ei) (events s)")
  case None
  then show ?thesis
    using assms(1,2) by (simp add: registerMemberForEvent_def findById_def)
next
  case (Some event)
  then have "event \<in> set (events s)"
    by (auto simp: find_Some_iff)
  then have cap0: "ev_maxAttendees event \<noteq> Some 0"
    using assms(4) by blast
  have cap: "atCapacity event
      = (case ev_maxAttendees event of None \<Rightarrow> False
         | Some cap \<Rightarrow> cap \<le> length (ev_attendees event))"
    using cap0 by (auto simp: atCapacity_def split: option.splits)
  have dup: "(find (\<lambda>attendee. toString (a_member attendee) = memberId) (ev_attendees event) \<noteq> None)
      = (mi \<in> a_member ` set (ev_attendees event))"
    using find_printed_member [of mi "ev_attendees event"] assms(3) by simp
  show ?thesis
  proof (cases "find (\<lambda>d. m_id d = mi) (members s)")
    case None
    then show ?thesis
      using Some assms(1,2) by (simp add: registerMemberForEvent_def findById_def)
  next
    case (Some member)
    then have "m_id member = mi"
      by (rule find_id_Some)
    then show ?thesis
      using Some \<open>find (\<lambda>d. ev_id d = ei) (events s) = Some event\<close> assms(1,2) cap dup
      by (simp add: registerMemberForEvent_def findById_def Let_def)
  qed
qed

theorem registerMemberForEvent_checks_in_order_witness:
  "registerMemberForEvent sampleStore noon idGala idAlice = (Inr galaWithAlice, storeWithAlice)
   \<and> a_paymentStatus (last (ev_attendees galaWithAlice)) = ''Pending''
   \<and> registerMemberForEvent storeWithAlice noon idGala idAlice
       = (Inl (newError ''Member is already registered for this event''), storeWithAlice)
   \<and> registerMemberForEvent storeWithAlice noon idGala idBob
       = (Inl (newError ''Member not found''), storeWithAlice)
   \<and> registerMemberForEvent storeWithAlice noon idSouth idBob
       = (Inl (newError ''Event not found''), storeWithAlice)
   \<and> registerMemberForEvent storeWithAliceTwice noon idGala idAlice
       = (Inl (newError ''Member is already registered for this event''), storeWithAliceTwice)"
proof -
  have printed: "toString (ObjectId idAlice) = idAlice" "toString (ObjectId idBob) = idBob"
    by simp_all
  have caps: "\<forall>e \<in> set (events sampleStore). ev_maxAttendees e \<noteq> Some 0"
    "\<forall>e \<in> set (events storeWithAlice). ev_maxAttendees e \<noteq> Some 0"
    "\<forall>e \<in> set (events storeWithAliceTwice). ev_maxAttendees e \<noteq> Some 0"
    by (simp_all add: sampleStore_def storeWithAlice_def storeWithAliceTwice_def gala_def
        galaWithAlice_def galaWithAliceTwice_def)
  have 1: "registerMemberForEvent sampleStore noon idGala idAlice = (Inr galaWithAlice, storeWithAlice)"
    using registerMemberForEvent_checks_in_order
      [OF cast_samples(6) cast_samples(1) printed(1) caps(1), of noon]
    by (simp add: sampleStore_def gala_def alice_def bob_def sample_ids_distinct saveDoc_def
        galaWithAlice_def storeWithAlice_def aliceRegistered_def)
  have 2: "registerMemberForEvent storeWithAlice noon idGala idAlice
      = (Inl (newError ''Member is already registered for this event''), storeWithAlice)"
    using registerMemberForEvent_checks_in_order
      [OF cast_samples(6) cast_samples(1) printed(1) caps(2), of noon]
    by (simp add: sampleStore_def gala_def alice_def bob_def sample_ids_distinct
        galaWithAlice_def storeWithAlice_def aliceRegistered_def)
  have 3: "registerMemberForEvent storeWithAlice noon idGala idBob
      = (Inl (newError ''Member not found''), storeWithAlice)"
    using registerMemberForEvent_checks_in_order
      [OF cast_samples(6) cast_samples(3) printed(2) caps(2), of noon]
    by (simp add: sampleStore_def gala_def alice_def bob_def sample_ids_distinct
        galaWithAlice_def storeWithAlice_def aliceRegistered_def)
  have 4: "registerMemberForEvent storeWithAlice noon idSouth idBob
      = (Inl (newError ''Event not found''), storeWithAlice)"
    using registerMemberForEvent_checks_in_order
      [OF cast_samples(5) cast_samples(3) printed(2) caps(2), of noon]
    by (simp add: sampleStore_def gala_def sample_ids galaWithAlice_def storeWithAlice_def)
  have 5: "registerMemberForEvent storeWithAliceTwice noon idGala idAlice
      = (Inl (newError ''Member is already registered for this event''), storeWithAliceTwice)"
    using registerMemberForEvent_checks_in_order
      [OF cast_samples(6) cast_samples(1) printed(1) caps(3), of noon]
    by (simp add: sampleStore_def gala_def alice_def bob_def sample_ids_distinct
        galaWithAliceTwice_def storeWithAliceTwice_def aliceRegistered_def)
  have 6: "a_paymentStatus (last (ev_attendees galaWithAlice)) = ''Pending''"
    by (simp add: galaWithAlice_def aliceRegistered_def)
  from 1 2 3 4 5 6 show ?thesis by simp
qed

text \<open>
  C4 as stated, for any two strings, fails in two ways.  No event is stored under the id of
  the zone South, yet a call with that event id and a member id that is no ObjectId is not
  answered with "Event not found": the lookups run first and the cast of the member id
  throws.  And Alice is among the attendees of the gala, yet registering her again under
  her id in upper case, which casts to the same reference, does not fail with "Member is
  already registered for this event": it succeeds and leaves the gala with two attendee
  records.
\<close>

theorem register_outside_printed_ids:
  "find (\<lambda>d. ev_id d = ObjectId idSouth) (events sampleStore) = None
   \<and> registerMemberForEvent sampleStore noon idSouth ''alice''
       = (Inl (castError ''alice''), sampleStore)
   \<and> castObjectId idAliceUpper = Some (ObjectId idAlice)
   \<and> events storeWithAlice = [galaWithAlice]
   \<and> map a_member (ev_attendees galaWithAlice) = [ObjectId idAlice]
   \<and> registerMemberForEvent storeWithAlice noon idGala idAliceUpper
       = (Inr galaWithAliceTwice, storeWithAliceTwice)
   \<and> length (ev_attendees galaWithAliceTwice) = 2"
proof -
  have "find (\<lambda>d. ev_id d = ObjectId idSouth) (events sampleStore) = None"
    by (simp add: sampleStore_def gala_def sample_ids)
  moreover have "castObjectId ''alice'' = None"
    by (simp add: castObjectId_def)
  then have "registerMemberForEvent sampleStore noon idSouth ''alice''
      = (Inl (castError ''alice''), sampleStore)"
    by (simp add: registerMemberForEvent_def findById_def cast_samples)
  moreover have "events storeWithAlice = [galaWithAlice]"
    by (simp add: storeWithAlice_def)
  moreover have "map a_member (ev_attendees galaWithAlice) = [ObjectId idAlice]"
    by (simp add: galaWithAlice_def aliceRegistered_def)
  moreover have "length (ev_attendees galaWithAliceTwice) = 2"
    by (simp add: galaWithAliceTwice_def)
  ultimately show ?thesis
    using register_alice_upper cast_samples(2) by simp
qed

section \<open>Missing and soft-deleted entities at the HTTP layer\<close>

text \<open>
  C5.  The claim says that a request failing because its entity is missing or soft-deleted
  is answered with status 404.  In the sample store the payment \<open>pay2\<close> has
  \<open>isActive = false\<close> and the member \<open>bob\<close> is disabled: \<^verbatim>\<open>getPaymentById\<close> throws
  the plain error "Payment not found", and the responses to both reads carry status 500.
\<close>

theorem getPaymentById_soft_deleted_500:
  "getPaymentById sampleStore idPay2 = Inl (newError ''Payment not found'')
   \<and> PaymentController_getPaymentById sampleStore idPay2
       = Inr \<lparr>r_status = 500, r_success = False, r_message = ''Payment not found''\<rparr>
   \<and> MemberController_getMemberById sampleStore idBob
       = Inr \<lparr>r_status = 500, r_success = False, r_message = ''Member not found''\<rparr>"
  by (simp add: PaymentController_getPaymentById_def MemberController_getMemberById_def
      getPaymentById_def getMemberById_def findById_def cast_samples sampleStore_def
      pay1_def pay2_def alice_def bob_def sample_ids_distinct errorHandler_newError)

section \<open>Login\<close>

text \<open>
  A login with an email no user has and a login with the email of an active user and a
  password that does not match are answered alike: the service throws the same error
  "Invalid credentials", and the two HTTP responses are equal in status, flag and message.
  A login for a deactivated account is answered with the message "Account is deactivated",
  which differs from the former.
\<close>

lemma login_unknown_email_indistinguishable:
  assumes "findUserByEmail (users s) unknownEmail = None"
      and "findUserByEmail (users s) knownEmail = Some u"
      and "u_isActive u"
      and "\<not> bcryptCompare wrongPassword (u_password u)"
  shows "login bcryptCompare jwtSign s unknownEmail anyPassword = Inl (newError ''Invalid credentials'')
       \<and> login bcryptCompare jwtSign s knownEmail wrongPassword = Inl (newError ''Invalid credentials'')
       \<and> AuthController_login bcryptCompare jwtSign s unknownEmail anyPassword
           = AuthController_login bcryptCompare jwtSign s knownEmail wrongPassword
       \<and> (\<exists>r. AuthController_login bcryptCompare jwtSign s unknownEmail anyPassword = Inr r
              \<and> r_message r = ''Invalid credentials'' \<and> \<not> r_success r
              \<and> (\<forall>otherEmail otherPassword v.
                    findUserByEmail (users s) otherEmail = Some v \<and> \<not> u_isActive v \<longrightarrow>
                    (\<exists>rd. AuthController_login bcryptCompare jwtSign s otherEmail otherPassword = Inr rd
                        \<and> r_message rd = ''Account is deactivated''
                        \<and> r_message rd \<noteq> r_message r)))"
  using assms
  by (auto simp: login_def AuthController_login_def errorHandler_newError)

lemma lower_samples:
  "toLowerCase ''Alice@Example.com'' = ''alice@example.com''"
  "toLowerCase ''nobody@example.com'' = ''nobody@example.com''"
  "toLowerCase ''bob@example.com'' = ''bob@example.com''"
  by code_simp+

lemma find_nobody: "findUserByEmail (users sampleStore) ''nobody@example.com'' = None"
  by (simp add: findUserByEmail_def sampleStore_def admin_def userAlice_def userBob_def
      lower_samples)

lemma find_alice: "findUserByEmail (users sampleStore) ''Alice@Example.com'' = Some userAlice"
  by (simp add: findUserByEmail_def sampleStore_def admin_def userAlice_def userBob_def
      lower_samples)

lemma find_bob: "findUserByEmail (users sampleStore) ''bob@example.com'' = Some userBob"
  by (simp add: findUserByEmail_def sampleStore_def admin_def userAlice_def userBob_def
      lower_samples)

lemma login_unknown_email_indistinguishable_sample:
  "AuthController_login sampleCompare sampleSign sampleStore ''nobody@example.com'' ''Wonder1''
     = AuthController_login sampleCompare sampleSign sampleStore ''Alice@Example.com'' ''wonder1''
   \<and> login sampleCompare sampleSign sampleStore ''nobody@example.com'' ''Wonder1''
       = Inl (newError ''Invalid credentials'')
   \<and> login sampleCompare sampleSign sampleStore ''Alice@Example.com'' ''wonder1''
       = Inl (newError ''Invalid credentials'')
   \<and> (\<exists>rd. AuthController_login sampleCompare sampleSign sampleStore ''bob@example.com'' ''Builder1''
          = Inr rd \<and> r_message rd = ''Account is deactivated'')"
proof -
  have active: "u_isActive userAlice"
    by (simp add: userAlice_def)
  have wrong: "\<not> sampleCompare ''wonder1'' (u_password userAlice)"
    by (simp add: sampleCompare_def sampleHash_def userAlice_def)
  have bob: "findUserByEmail (users sampleStore) ''bob@example.com'' = Some userBob
      \<and> \<not> u_isActive userBob"
    by (simp add: find_bob userBob_def)
  note t = login_unknown_email_indistinguishable
    [where s = sampleStore and bcryptCompare = sampleCompare and jwtSign = sampleSign
       and anyPassword = "''Wonder1''" and wrongPassword = "''wonder1''",
     OF find_nobody find_alice active wrong]
  from t bob show ?thesis by blast
qed

text \<open>
  C6.  The claim says that a login with an unknown email and a login with a known email and
  a wrong password are both answered with the generic message and status 401.  In the
  sample store both are answered with the message "Invalid credentials", as claimed, but
  with status 500, which is not 401.
\<close>

theorem login_failure_status_not_401:
  "AuthController_login sampleCompare sampleSign sampleStore ''nobody@example.com'' ''Wonder1''
     = Inr \<lparr>r_status = 500, r_success = False, r_message = ''Invalid credentials''\<rparr>
   \<and> AuthController_login sampleCompare sampleSign sampleStore ''Alice@Example.com'' ''wonder1''
     = Inr \<lparr>r_status = 500, r_success = False, r_message = ''Invalid credentials''\<rparr>
   \<and> (500::nat) \<noteq> UNAUTHORIZED"
  by (simp add: AuthController_login_def login_def find_nobody find_alice errorHandler_newError
      userAlice_def sampleCompare_def sampleHash_def UNAUTHORIZED_def)

section \<open>Zone deletion\<close>

text \<open>
  The guard itself.  For a zone id that casts to \<open>i\<close> and an active zone \<open>z\<close> found under
  it: when some member with \<open>isActive = true\<close> references the zone, \<^verbatim>\<open>deleteZone\<close>
  throws the "Cannot delete zone" error with the number of such members and leaves the
  store, hence the zone's flag, as it was; when no such member exists it returns the zone
  with \<open>isActive = false\<close>, and in the new store the zones are the same documents id by id
  (none is removed), every zone with that id is inactive, every other zone is untouched and
  so are the members.
\<close>

lemma deleteZone_guard:
  assumes "castObjectId zoneId = Some i"
      and "find (\<lambda>z. z_id z = i \<and> z_isActive z) (zones s) = Some z"
  shows "((\<exists>m \<in> set (members s). m_zone m = i \<and> m_isActive m) \<longrightarrow>
            deleteZone s zoneId
              = (Inl (newError (zoneInUseMessage
                    (length (filter (\<lambda>m. m_zone m = i \<and> m_isActive m) (members s))))), s))
       \<and> (\<not> (\<exists>m \<in> set (members s). m_zone m = i \<and> m_isActive m) \<longrightarrow>
            (\<exists>s'. deleteZone s zoneId = (Inr (z\<lparr>z_isActive := False\<rparr>), s')
               \<and> map z_id (zones s') = map z_id (zones s)
               \<and> (\<forall>x \<in> set (zones s'). z_id x = i \<longrightarrow> \<not> z_isActive x)
               \<and> (\<forall>x \<in> set (zones s'). z_id x \<noteq> i \<longrightarrow> x \<in> set (zones s))
               \<and> members s' = members s))"
proof (intro conjI impI)
  assume ex: "\<exists>m \<in> set (members s). m_zone m = i \<and> m_isActive m"
  then have "filter (\<lambda>m. m_zone m = i \<and> m_isActive m) (members s) \<noteq> []"
    by (auto simp: filter_empty_conv)
  then have "0 < length (filter (\<lambda>m. m_zone m = i \<and> m_isActive m) (members s))"
    by simp
  then show "deleteZone s zoneId
      = (Inl (newError (zoneInUseMessage
            (length (filter (\<lambda>m. m_zone m = i \<and> m_isActive m) (members s))))), s)"
    using assms by (simp add: deleteZone_def findActiveZone_def countActiveMembersOfZone_def)
next
  assume none: "\<not> (\<exists>m \<in> set (members s). m_zone m = i \<and> m_isActive m)"
  then have cnt: "length (filter (\<lambda>m. m_zone m = i \<and> m_isActive m) (members s)) = 0"
    by (auto simp: filter_empty_conv)
  have zid: "z_id z = i"
    using assms(2) by (auto simp: find_Some_iff)
  let ?z' = "z\<lparr>z_isActive := False\<rparr>"
  let ?s' = "s\<lparr>zones := saveDoc z_id ?z' (zones s)\<rparr>"
  have res: "deleteZone s zoneId = (Inr ?z', ?s')"
    using assms cnt
    by (simp add: deleteZone_def findActiveZone_def countActiveMembersOfZone_def Let_def)
  have ids: "map z_id (zones ?s') = map z_id (zones s)"
    by (simp add: map_id_saveDoc)
  have inactive: "\<forall>x \<in> set (zones ?s'). z_id x = i \<longrightarrow> \<not> z_isActive x"
    using zid by (auto simp: saveDoc_def split: if_splits)
  have others: "\<forall>x \<in> set (zones ?s'). z_id x \<noteq> i \<longrightarrow> x \<in> set (zones s)"
    using zid by (auto simp: saveDoc_def split: if_splits)
  show "\<exists>s'. deleteZone s zoneId = (Inr ?z', s')
      \<and> map z_id (zones s') = map z_id (zones s)
      \<and> (\<forall>x \<in> set (zones s'). z_id x = i \<longrightarrow> \<not> z_isActive x)
      \<and> (\<forall>x \<in> set (zones s'). z_id x \<noteq> i \<longrightarrow> x \<in> set (zones s))
      \<and> members s' = members s"
    using res ids inactive others by (intro exI [of _ ?s']) simp
qed

lemma deleteZone_guard_sample:
  "deleteZone sampleStore idNorth
     = (Inl (newError
          ''Cannot delete zone. It has 1 active member(s). Please reassign or remove members first.''),
        sampleStore)
   \<and> fst (deleteZone sampleStore idSouth) = Inr (south\<lparr>z_isActive := False\<rparr>)
   \<and> map z_isActive (zones (snd (deleteZone sampleStore idSouth))) = [True, False]"
proof -
  have north: "find (\<lambda>z. z_id z = ObjectId idNorth \<and> z_isActive z) (zones sampleStore) = Some north"
    by (simp add: sampleStore_def north_def)
  have south: "find (\<lambda>z. z_id z = ObjectId idSouth \<and> z_isActive z) (zones sampleStore) = Some south"
    by (simp add: sampleStore_def north_def south_def sample_ids_distinct)
  have used: "\<exists>m \<in> set (members sampleStore). m_zone m = ObjectId idNorth \<and> m_isActive m"
    by (simp add: sampleStore_def alice_def)
  have unused: "\<not> (\<exists>m \<in> set (members sampleStore). m_zone m = ObjectId idSouth \<and> m_isActive m)"
    by (simp add: sampleStore_def alice_def bob_def sample_ids_distinct)
  have count: "length (filter (\<lambda>m. m_zone m = ObjectId idNorth \<and> m_isActive m) (members sampleStore)) = 1"
    by (simp add: sampleStore_def alice_def bob_def)
  have msg: "zoneInUseMessage 1
      = ''Cannot delete zone. It has 1 active member(s). Please reassign or remove members first.''"
    by code_simp
  have a: "deleteZone sampleStore idNorth
      = (Inl (newError
           ''Cannot delete zone. It has 1 active member(s). Please reassign or remove members first.''),
         sampleStore)"
    using deleteZone_guard [OF cast_samples(4) north] used count msg by simp
  obtain s' where b: "deleteZone sampleStore idSouth = (Inr (south\<lparr>z_isActive := False\<rparr>), s')"
    using deleteZone_guard [OF cast_samples(5) south] unused by blast
  have "zones s' = saveDoc z_id (south\<lparr>z_isActive := False\<rparr>) (zones sampleStore)"
    using b south unused
    by (auto simp add: deleteZone_def findActiveZone_def countActiveMembersOfZone_def
        cast_samples Let_def)
  then have "map z_isActive (zones s') = [True, False]"
    by (simp add: saveDoc_def sampleStore_def north_def south_def sample_ids_distinct)
  then show ?thesis
    using a b by simp
qed

text \<open>
  C7.  The claim says that deleting a zone which an active member references fails with a
  conflict error.  The zone North of the sample store has the active member Alice: the
  service throws a plain error, which carries no status code, and leaves the store as it
  was; the response to the request carries that error's message with status 500, which is
  neither 409 nor 400.
\<close>

theorem deleteZone_in_use_answered_500:
  "deleteZone sampleStore idNorth
     = (Inl (newError
          ''Cannot delete zone. It has 1 active member(s). Please reassign or remove members first.''),
        sampleStore)
   \<and> e_statusCode (newError
          ''Cannot delete zone. It has 1 active member(s). Please reassign or remove members first.'')
       = None
   \<and> ZoneController_deleteZone sampleStore idNorth
       = (Inr \<lparr>r_status = 500, r_success = False,
               r_message =
                 ''Cannot delete zone. It has 1 active member(s). Please reassign or remove members first.''\<rparr>,
          sampleStore)
   \<and> (500::nat) \<noteq> CONFLICT \<and> (500::nat) \<noteq> BAD_REQUEST"
proof -
  have thrown: "deleteZone sampleStore idNorth
      = (Inl (newError
           ''Cannot delete zone. It has 1 active member(s). Please reassign or remove members first.''),
         sampleStore)"
    using deleteZone_guard_sample by simp
  have "ZoneController_deleteZone sampleStore idNorth
      = (Inr \<lparr>r_status = 500, r_success = False,
              r_message =
                ''Cannot delete zone. It has 1 active member(s). Please reassign or remove members first.''\<rparr>,
         sampleStore)"
    by (simp add: ZoneController_deleteZone_def thrown errorHandler_newError)
  then show ?thesis
    using thrown by (simp add: newError_def CONFLICT_def BAD_REQUEST_def)
qed

section \<open>Payment updates\<close>

lemma validatePaymentUpdate_schema:
  "updatePaymentSchema b \<Longrightarrow> validatePaymentUpdate b = []"
  by (auto simp: updatePaymentSchema_def validatePaymentUpdate_def checkOpt_def checkEnum_def
      split: option.splits)

lemma assignPayment_schema:
  "updatePaymentSchema b \<Longrightarrow>
   assignPayment p b =
     p\<lparr>p_status := (case pu_status b of None \<Rightarrow> p_status p | Some v \<Rightarrow> v),
       p_transactionId := (case pu_transactionId b of None \<Rightarrow> p_transactionId p | Some v \<Rightarrow> Some v),
       p_description := (case pu_description b of None \<Rightarrow> p_description p
                         | Some v \<Rightarrow> Some (trim v))\<rparr>"
  by (simp add: updatePaymentSchema_def assignPayment_def setOpt_def setRef_def
      split: option.splits)

text \<open>
  C8.  For every payment found under the request's id and every body sent to
  \<^verbatim>\<open>PUT /payments/:id\<close>: the payment stored under that id after the request has the
  same \<open>_id\<close>, paymentId, member, amount, paymentType, paymentMethod, event, receiptFile,
  paymentDate, processedBy and isActive as before.  When the body passes
  \<^verbatim>\<open>updatePaymentSchema\<close> and the payment is active, \<^verbatim>\<open>updatePayment\<close> returns that
  stored payment, whose status, transactionId and description are the body's where the body
  gives them (the description trimmed) and the old ones where it does not.
\<close>

theorem updatePayment_frame:
  assumes "castObjectId paymentId = Some i"
      and "find (\<lambda>p. p_id p = i) (payments s) = Some payment"
  shows "\<exists>payment'.
           find (\<lambda>p. p_id p = i) (payments (snd (putPayment joiMessages s paymentId body)))
             = Some payment'
         \<and> p_id payment' = p_id payment
         \<and> p_paymentId payment' = p_paymentId payment
         \<and> p_member payment' = p_member payment
         \<and> p_amount payment' = p_amount payment
         \<and> p_paymentType payment' = p_paymentType payment
         \<and> p_paymentMethod payment' = p_paymentMethod payment
         \<and> p_event payment' = p_event payment
         \<and> p_receiptFile payment' = p_receiptFile payment
         \<and> p_paymentDate payment' = p_paymentDate payment
         \<and> p_processedBy payment' = p_processedBy payment
         \<and> p_isActive payment' = p_isActive payment
         \<and> (updatePaymentSchema body \<and> p_isActive payment \<longrightarrow>
              updatePayment s paymentId body
                = (Inr payment', s\<lparr>payments := saveDoc p_id payment' (payments s)\<rparr>)
              \<and> p_status payment'
                  = (case pu_status body of None \<Rightarrow> p_status payment | Some v \<Rightarrow> v)
              \<and> p_transactionId payment'
                  = (case pu_transactionId body of None \<Rightarrow> p_transactionId payment
                     | Some v \<Rightarrow> Some v)
              \<and> p_description payment'
                  = (case pu_description body of None \<Rightarrow> p_description payment
                     | Some v \<Rightarrow> Some (trim v)))"
proof (cases "updatePaymentSchema body \<and> p_isActive payment")
  case True
  let ?p' = "assignPayment payment body"
  have pid: "p_id payment = i"
    by (rule find_id_Some [OF assms(2)])
  have shape: "?p' =
     payment\<lparr>p_status := (case pu_status body of None \<Rightarrow> p_status payment | Some v \<Rightarrow> v),
       p_transactionId := (case pu_transactionId body of None \<Rightarrow> p_transactionId payment
                           | Some v \<Rightarrow> Some v),
       p_description := (case pu_description body of None \<Rightarrow> p_description payment
                         | Some v \<Rightarrow> Some (trim v))\<rparr>"
    using True by (simp add: assignPayment_schema)
  have upd: "updatePayment s paymentId body
      = (Inr ?p', s\<lparr>payments := saveDoc p_id ?p' (payments s)\<rparr>)"
    using assms True
    by (simp add: updatePayment_def findById_def validatePaymentUpdate_schema Let_def)
  have put: "snd (putPayment joiMessages s paymentId body)
      = s\<lparr>payments := saveDoc p_id ?p' (payments s)\<rparr>"
    using True upd by (simp add: putPayment_def)
  have "p_id ?p' = i"
    using pid by (simp add: shape)
  then have found: "find (\<lambda>p. p_id p = i) (payments (snd (putPayment joiMessages s paymentId body)))
      = Some ?p'"
    using assms(2) by (simp add: put find_saveDoc_same)
  show ?thesis
    by (rule exI [of _ ?p']) (simp add: found upd, simp add: shape)
next
  case False
  have "snd (putPayment joiMessages s paymentId body) = s"
  proof (cases "updatePaymentSchema body")
    case True
    with False have "\<not> p_isActive payment" by simp
    then have "updatePayment s paymentId body = (Inl (newError ''Payment not found''), s)"
      using assms by (simp add: updatePayment_def findById_def)
    then show ?thesis
      using True by (simp add: putPayment_def)
  next
    case False
    then show ?thesis by (simp add: putPayment_def)
  qed
  then show ?thesis
    using assms(2) False by auto
qed

lemma markCompleted_valid: "updatePaymentSchema markCompleted"
  by (simp add: updatePaymentSchema_def markCompleted_def joiTrimmedString_def trim_def
      isSpace_def paymentStatusEnum_def)

lemma trim_desk: "trim '' paid at the desk '' = ''paid at the desk''"
  by (simp add: trim_def isSpace_def)

theorem updatePayment_frame_witness:
  "updatePaymentSchema markCompleted
   \<and> (\<exists>payment'. updatePayment sampleStore idPay1 markCompleted
          = (Inr payment', sampleStore\<lparr>payments := saveDoc p_id payment' (payments sampleStore)\<rparr>)
        \<and> p_paymentId payment' = ''PAYLX1A2B3C4D''
        \<and> p_member payment' = ObjectId idAlice
        \<and> p_amount payment' = 50
        \<and> p_paymentType payment' = ''Event Registration''
        \<and> p_isActive payment'
        \<and> p_status payment' = ''Completed''
        \<and> p_transactionId payment' = Some ''TX-17''
        \<and> p_description payment' = Some ''paid at the desk'')"
proof -
  have found: "find (\<lambda>p. p_id p = ObjectId idPay1) (payments sampleStore) = Some pay1"
    by (simp add: sampleStore_def pay1_def)
  have active: "p_isActive pay1"
    by (simp add: pay1_def)
  obtain payment' where
    "updatePayment sampleStore idPay1 markCompleted
       = (Inr payment', sampleStore\<lparr>payments := saveDoc p_id payment' (payments sampleStore)\<rparr>)"
    "p_paymentId payment' = p_paymentId pay1" "p_member payment' = p_member pay1"
    "p_amount payment' = p_amount pay1" "p_paymentType payment' = p_paymentType pay1"
    "p_isActive payment' = p_isActive pay1"
    "p_status payment' = (case pu_status markCompleted of None \<Rightarrow> p_status pay1 | Some v \<Rightarrow> v)"
    "p_transactionId payment'
       = (case pu_transactionId markCompleted of None \<Rightarrow> p_transactionId pay1 | Some v \<Rightarrow> Some v)"
    "p_description payment'
       = (case pu_description markCompleted of None \<Rightarrow> p_description pay1
          | Some v \<Rightarrow> Some (trim v))"
    using updatePayment_frame [OF cast_samples(7) found, of sampleJoiMessages markCompleted]
      markCompleted_valid active by blast
  then show ?thesis
    using markCompleted_valid trim_desk
    by (intro conjI exI [of _ payment']) (simp_all add: pay1_def markCompleted_def)
qed

text \<open>
  The schema is what confines the update: the service by itself assigns whatever the body
  holds, here a new amount.
\<close>

lemma updatePayment_unvalidated_amount:
  "p_amount (assignPayment pay1 (markCompleted\<lparr>pu_amount := Some 1\<rparr>)) = 1
   \<and> p_amount pay1 = 50
   \<and> \<not> updatePaymentSchema (markCompleted\<lparr>pu_amount := Some 1\<rparr>)"
  by (simp add: assignPayment_def setOpt_def setRef_def markCompleted_def pay1_def
      updatePaymentSchema_def)

section \<open>Notification targets\<close>

lemma castAll_Inr_map:
  "castAll ts = Inr ids \<Longrightarrow> map castObjectId ts = map Some ids"
  by (induction ts arbitrary: ids) (auto split: option.splits sum.splits)

lemma castAll_total:
  "\<forall>t \<in> set ts. castObjectId t \<noteq> None \<Longrightarrow> \<exists>ids. castAll ts = Inr ids"
  by (induction ts) (auto split: option.splits sum.splits)

lemma length_filter_le_card:
  assumes "distinct (map f xs)"
  shows "length (filter (\<lambda>x. f x \<in> A \<and> P x) xs) \<le> card (A \<inter> f ` set xs)"
proof -
  let ?ys = "filter (\<lambda>x. f x \<in> A \<and> P x) xs"
  have d: "distinct (map f ?ys)"
    using assms by (simp add: distinct_map_filter)
  have "card (set (map f ?ys)) = length (map f ?ys)"
    by (rule distinct_card [OF d])
  then have "length ?ys = card (set (map f ?ys))"
    by (simp only: length_map)
  also have "\<dots> \<le> card (A \<inter> f ` set xs)"
    by (rule card_mono) auto
  finally show ?thesis .
qed

lemma card_lt_length_if_dup:
  assumes "\<not> distinct ids"
  shows "card (set ids \<inter> B) < length ids"
proof -
  have "card (set ids \<inter> B) \<le> card (set ids)"
    by (rule card_mono) auto
  moreover have "card (set ids) < length ids"
    using assms card_length [of ids] card_distinct [of ids]
    by (cases "card (set ids) = length ids") auto
  ultimately show ?thesis by simp
qed

text \<open>
  C9.  When the target list names one member more than once (two of its entries cast to
  the same ObjectId), every entry being a well-formed id, \<^verbatim>\<open>createNotification\<close>
  throws "One or more target members not found" and the store is left as it was, so no
  notification is created, whether or not the members exist and are active.  Member
  documents have pairwise different \<open>_id\<close>s, as in every MongoDB collection.
\<close>

theorem createNotification_duplicate_target_rejected:
  assumes "nd_targetMembers notificationData = Some targetMembers"
      and "\<forall>t \<in> set targetMembers. castObjectId t \<noteq> None"
      and "\<not> distinct (map castObjectId targetMembers)"
      and "distinct (map m_id (members s))"
  shows "createNotification s newId now notificationData sentBy
           = (Inl (newError ''One or more target members not found''), s)"
proof -
  obtain ids where ids: "castAll targetMembers = Inr ids"
    using castAll_total [OF assms(2)] by blast
  have m: "map castObjectId targetMembers = map Some ids"
    by (rule castAll_Inr_map [OF ids])
  have len: "length ids = length targetMembers"
    using m by (metis length_map)
  have "\<not> distinct (map Some ids)"
    using assms(3) m by simp
  then have dup: "\<not> distinct ids"
    by (simp add: distinct_map)
  have nonempty: "length targetMembers > 0"
    using dup len by (cases targetMembers) auto
  have "length (filter (\<lambda>m. m_id m \<in> set ids \<and> m_isActive m) (members s))
          \<le> card (set ids \<inter> m_id ` set (members s))"
    by (rule length_filter_le_card [OF assms(4)])
  also have "\<dots> < length ids"
    by (rule card_lt_length_if_dup [OF dup])
  finally have "length (filter (\<lambda>m. m_id m \<in> set ids \<and> m_isActive m) (members s))
      \<noteq> length targetMembers"
    using len by simp
  then show ?thesis
    using assms(1) ids nonempty
    by (simp add: createNotification_def findActiveMembersIn_def Let_def)
qed

theorem createNotification_duplicate_target_rejected_witness:
  "find (\<lambda>m. m_id m = ObjectId idAlice) (members sampleStore) = Some alice
   \<and> m_isActive alice
   \<and> createNotification sampleStore (ObjectId idFresh) noon toAliceTwice (ObjectId idAdmin)
       = (Inl (newError ''One or more target members not found''), sampleStore)"
proof -
  have t: "nd_targetMembers toAliceTwice = Some [idAlice, idAlice]"
    by (simp add: toAliceTwice_def)
  have wf: "\<forall>t \<in> set [idAlice, idAlice]. castObjectId t \<noteq> None"
    by (simp add: cast_samples)
  have dup: "\<not> distinct (map castObjectId [idAlice, idAlice])"
    by simp
  have ids: "distinct (map m_id (members sampleStore))"
    by (simp add: sampleStore_def alice_def bob_def sample_ids_distinct)
  have "find (\<lambda>m. m_id m = ObjectId idAlice) (members sampleStore) = Some alice" "m_isActive alice"
    by (simp_all add: sampleStore_def alice_def)
  then show ?thesis
    using createNotification_duplicate_target_rejected [OF t wf dup ids] by simp
qed

section \<open>Attendance summary\<close>

lemma length_three_way_partition:
  assumes "\<forall>x \<in> set xs. f x = a \<or> f x = b \<or> f x = c" and "a \<noteq> b" and "a \<noteq> c" and "b \<noteq> c"
  shows "length xs = length (filter (\<lambda>x. f x = a) xs) + length (filter (\<lambda>x. f x = b) xs)
           + length (filter (\<lambda>x. f x = c) xs)"
  using assms by (induction xs) auto

text \<open>
  C10.  For an event id that casts to \<open>i\<close> and an active event found under it whose
  attendees all carry one of the three attendance statuses of the schema,
  \<^verbatim>\<open>getEventAttendees\<close> returns the attendee list with a summary in which \<open>attended\<close>,
  \<open>noShow\<close> and \<open>pending\<close> count the attendees with status "Attended", "No Show" and
  "Registered", and \<open>totalRegistered\<close> is their sum.
\<close>

theorem getEventAttendees_summary_partition:
  assumes "castObjectId eventId = Some i"
      and "find (\<lambda>d. ev_id d = i) (events s) = Some event"
      and "ev_isActive event"
      and "\<forall>a \<in> set (ev_attendees event). a_attendanceStatus a \<in> set attendanceStatusEnum"
  shows "\<exists>r. getEventAttendees s eventId = Inr r
           \<and> ar_attendees r = ev_attendees event
           \<and> attended (ar_summary r)
               = length (filter (\<lambda>a. a_attendanceStatus a = ''Attended'') (ev_attendees event))
           \<and> noShow (ar_summary r)
               = length (filter (\<lambda>a. a_attendanceStatus a = ''No Show'') (ev_attendees event))
           \<and> pending (ar_summary r)
               = length (filter (\<lambda>a. a_attendanceStatus a = ''Registered'') (ev_attendees event))
           \<and> totalRegistered (ar_summary r)
               = attended (ar_summary r) + noShow (ar_summary r) + pending (ar_summary r)"
proof -
  have enum: "\<forall>a \<in> set (ev_attendees event).
      a_attendanceStatus a = ''Attended'' \<or> a_attendanceStatus a = ''No Show''
      \<or> a_attendanceStatus a = ''Registered''"
    using assms(4) by (auto simp: attendanceStatusEnum_def)
  have part: "length (ev_attendees event)
      = length (filter (\<lambda>a. a_attendanceStatus a = ''Attended'') (ev_attendees event))
      + length (filter (\<lambda>a. a_attendanceStatus a = ''No Show'') (ev_attendees event))
      + length (filter (\<lambda>a. a_attendanceStatus a = ''Registered'') (ev_attendees event))"
    by (rule length_three_way_partition [OF enum]) simp_all
  show ?thesis
    using assms(1-3) part by (simp add: getEventAttendees_def findById_def)
qed

theorem getEventAttendees_summary_partition_witness:
  "\<exists>r. getEventAttendees storeAfterGala idGala = Inr r
     \<and> totalRegistered (ar_summary r) = 3
     \<and> attended (ar_summary r) = 1 \<and> noShow (ar_summary r) = 1 \<and> pending (ar_summary r) = 1"
proof -
  have found: "find (\<lambda>d. ev_id d = ObjectId idGala) (events storeAfterGala) = Some galaHeld"
    by (simp add: storeAfterGala_def galaHeld_def gala_def)
  have active: "ev_isActive galaHeld"
    by (simp add: galaHeld_def gala_def)
  have enum: "\<forall>a \<in> set (ev_attendees galaHeld). a_attendanceStatus a \<in> set attendanceStatusEnum"
    by (simp add: galaHeld_def aliceRegistered_def attendanceStatusEnum_def)
  obtain r where r: "getEventAttendees storeAfterGala idGala = Inr r"
    and a: "attended (ar_summary r)
        = length (filter (\<lambda>a. a_attendanceStatus a = ''Attended'') (ev_attendees galaHeld))"
    and n: "noShow (ar_summary r)
        = length (filter (\<lambda>a. a_attendanceStatus a = ''No Show'') (ev_attendees galaHeld))"
    and p: "pending (ar_summary r)
        = length (filter (\<lambda>a. a_attendanceStatus a = ''Registered'') (ev_attendees galaHeld))"
    and t: "totalRegistered (ar_summary r)
        = attended (ar_summary r) + noShow (ar_summary r) + pending (ar_summary r)"
    using getEventAttendees_summary_partition [OF cast_samples(6) found active enum] by blast
  have "attended (ar_summary r) = 1" "noShow (ar_summary r) = 1" "pending (ar_summary r) = 1"
    by (simp_all add: a n p galaHeld_def aliceRegistered_def)
  then show ?thesis
    using r t by simp
qed

end
